theory Spec2Isabelle
  imports Main
begin

section \<open>Errors, the world and the environment\<close>

text \<open>
  The embedded file is \<^verbatim>\<open>pkg-manager/get-context/src/index.ts\<close>.

  An exception is a value of type \<open>error\<close>. The source reads only the \<^verbatim>\<open>code\<close>
  property of an error (\<^verbatim>\<open>err.code !== 'ENOENT'\<close>), so an error carries its code; the
  message texts are left out. \<open>PnpmError c\<close> stands for \<^verbatim>\<open>new PnpmError(c, message)\<close>, with
  the code as it is passed to the constructor, \<open>SystemError c\<close> for an error raised by the
  file system or by a collaborator with \<^verbatim>\<open>err.code = c\<close>, and \<open>TypeError\<close> for the
  error of reading a property of \<^verbatim>\<open>undefined\<close>, which has no code. The class
  \<^verbatim>\<open>PnpmError\<close> is imported from \<^verbatim>\<open>@pnpm/error\<close>; its constructor puts
  \<^verbatim>\<open>ERR_PNPM_\<close> before the code it is given (none of the codes of this file starts
  with it), so the \<^verbatim>\<open>code\<close> property of \<^verbatim>\<open>new PnpmError('HOIST_PATTERN_DIFF', ...)\<close>
  is \<^verbatim>\<open>ERR_PNPM_HOIST_PATTERN_DIFF\<close>, and that of no \<^verbatim>\<open>PnpmError\<close> is \<^verbatim>\<open>ENOENT\<close>.
\<close>

datatype error = PnpmError string | SystemError string | TypeError

fun code :: "error \<Rightarrow> string option" where
  "code (PnpmError c) = Some (''ERR_PNPM_'' @ c)"
| "code (SystemError c) = Some c"
| "code TypeError = None"

text \<open>
  Effects are explicit. The world is the file system, of an arbitrary type \<open>'w\<close>, together
  with the trace of the effects performed so far, oldest first. \<open>LoggerInfo message prefix\<close>
  is a call of \<^verbatim>\<open>logger.info\<close>; \<open>Readdir\<close>, \<open>Rimraf\<close> and \<open>Mkdir\<close> are the file-system calls
  with their path; \<open>ReadProjectsContext\<close> and \<open>ReadLockfiles\<close> are the calls of the two
  readers; \<open>PackageManifestDebug prefix\<close> and \<open>ContextDebug storeDir virtualStoreDir\<close> are
  the calls of the two debug loggers, without the manifest and the lockfile flag they also
  carry; \<open>CallValidateModules\<close> marks a call of \<^verbatim>\<open>validateModules\<close> by one of the two
  context builders.
\<close>

datatype event =
    LoggerInfo string string
  | Readdir string
  | Rimraf string
  | Mkdir string
  | ReadProjectsContext
  | ReadLockfiles
  | PackageManifestDebug string
  | ContextDebug string string
  | CallValidateModules

record 'w world =
  fs :: 'w
  trace :: "event list"

definition emit :: "event \<Rightarrow> 'w world \<Rightarrow> 'w world" where
  "emit e w = w\<lparr>trace := trace w @ [e]\<rparr>"

text \<open>The effects of a purge: the log line, the listing and the removals.\<close>

fun isPurgeEvent :: "event \<Rightarrow> bool" where
  "isPurgeEvent (LoggerInfo message prefix) = True"
| "isPurgeEvent (Readdir p) = True"
| "isPurgeEvent (Rimraf p) = True"
| "isPurgeEvent e = False"


text \<open>
  \<^verbatim>\<open>IncludedDependencies\<close> maps a dependencies field to a boolean; \<^verbatim>\<open>Registries\<close> is an
  object from scope to URL, compared by ramda's \<^verbatim>\<open>equals\<close> (same keys, same values), which
  is equality of maps. \<^verbatim>\<open>Modules\<close> is the persisted descriptor
  (\<^verbatim>\<open>.modules.yaml\<close>); the fields are those that \<^verbatim>\<open>validateModules\<close> reads itself.
\<close>

type_synonym IncludedDependencies = "string \<Rightarrow> bool"
type_synonym Registries = "string \<rightharpoonup> string"

record Modules =
  m_publicHoistPattern :: "string list option"
  m_included :: "IncludedDependencies option"
  m_registries :: "Registries option"

text \<open>
  What the file imports and this development does not have: Node's \<^verbatim>\<open>path\<close> and
  \<^verbatim>\<open>fs\<close>, \<^verbatim>\<open>rimraf\<close>, \<^verbatim>\<open>checkCompatibility\<close> and the constant
  \<^verbatim>\<open>DEPENDENCIES_FIELDS\<close>. They are parameters, collected in a record, and every
  theorem holds for all of them. \<open>fs_readdir\<close> answers with the entry names or an error;
  \<open>rimraf\<close> answers with an error or nothing and the file system it leaves behind (a failed
  removal may have removed part). \<open>checkCompatibility modules modulesDir storeDir
  virtualStoreDir\<close> answers with the error it throws, if any.
\<close>

record 'w sys =
  path_join :: "string \<Rightarrow> string \<Rightarrow> string"
  path_relative :: "string \<Rightarrow> string \<Rightarrow> string"
  fs_readdir :: "string \<Rightarrow> 'w \<Rightarrow> error + string list"
  rimraf :: "string \<Rightarrow> 'w \<Rightarrow> error option \<times> 'w"
  checkCompatibility :: "Modules \<Rightarrow> string \<Rightarrow> string \<Rightarrow> string \<Rightarrow> error option"
  DEPENDENCIES_FIELDS :: "string list"

section \<open>The purge engine\<close>

text \<open>The importer argument of \<^verbatim>\<open>purgeModulesDirsOfImporter\<close>; a project has an id as well.\<close>

record importer =
  modulesDir :: string
  rootDir :: string

record project = importer +
  id' :: string

definition startsWith :: "string \<Rightarrow> string \<Rightarrow> bool" where
  "startsWith s p = (take (length p) s = p)"

definition dirsAreEqual :: "('w, 'z) sys_scheme \<Rightarrow> string \<Rightarrow> string \<Rightarrow> bool" where
  "dirsAreEqual env dir1 dir2 = (path_relative env dir1 dir2 = [])"

definition do_readdir :: "('w, 'z) sys_scheme \<Rightarrow> string \<Rightarrow> 'w world \<Rightarrow> (error + string list) \<times> 'w world" where
  "do_readdir env dir w = (fs_readdir env dir (fs w), emit (Readdir dir) w)"

definition do_rimraf :: "('w, 'z) sys_scheme \<Rightarrow> string \<Rightarrow> 'w world \<Rightarrow> error option \<times> 'w world" where
  "do_rimraf env p w =
     (case rimraf env p (fs w) of
        (r, f) \<Rightarrow> (r, emit (Rimraf p) (w\<lparr>fs := f\<rparr>)))"

text \<open>
  The \<^verbatim>\<open>for\<close> loop of \<^verbatim>\<open>removeContentsOfDir\<close> over the listed items: a hidden item
  that is neither \<^verbatim>\<open>.bin\<close> nor \<^verbatim>\<open>.modules.yaml\<close> nor the virtual store is passed over
  (\<^verbatim>\<open>continue\<close>), any other is removed; a failing removal ends the loop with its error.
\<close>

fun removeItems :: "('w, 'z) sys_scheme \<Rightarrow> string \<Rightarrow> string \<Rightarrow> string list \<Rightarrow> 'w world \<Rightarrow> error option \<times> 'w world" where
  "removeItems env dir virtualStoreDir [] w = (None, w)"
| "removeItems env dir virtualStoreDir (item # items) w =
     (if startsWith item ''.'' \<and>
         item \<noteq> ''.bin'' \<and>
         item \<noteq> ''.modules.yaml'' \<and>
         \<not> dirsAreEqual env (path_join env dir item) virtualStoreDir
      then removeItems env dir virtualStoreDir items w
      else (case do_rimraf env (path_join env dir item) w of
              (Some e, w') \<Rightarrow> (Some e, w')
            | (None, w') \<Rightarrow> removeItems env dir virtualStoreDir items w'))"

text \<open>
  The removal of a list of paths, one after the other, up to the first that fails. The
  loop above comes to this for the paths of the items it does not pass over
  (\<open>removeItems_rimrafAll\<close> below); the proofs go through it.
\<close>

fun rimrafAll :: "('w, 'z) sys_scheme \<Rightarrow> string list \<Rightarrow> 'w world \<Rightarrow> error option \<times> 'w world" where
  "rimrafAll env [] w = (None, w)"
| "rimrafAll env (p # ps) w =
     (case do_rimraf env p w of
        (Some e, w') \<Rightarrow> (Some e, w')
      | (None, w') \<Rightarrow> rimrafAll env ps w')"

definition removeContentsOfDir :: "('w, 'z) sys_scheme \<Rightarrow> string \<Rightarrow> string \<Rightarrow> 'w world \<Rightarrow> error option \<times> 'w world" where
  "removeContentsOfDir env dir virtualStoreDir w =
     (case do_readdir env dir w of
        (Inl e, w') \<Rightarrow> (Some e, w')
      | (Inr items, w') \<Rightarrow> removeItems env dir virtualStoreDir items w')"

definition purgeModulesDirsOfImporter :: "('w, 'z) sys_scheme \<Rightarrow> string \<Rightarrow> 'i importer_scheme \<Rightarrow> 'w world \<Rightarrow> error option \<times> 'w world" where
  "purgeModulesDirsOfImporter env virtualStoreDir imp w =
     (case removeContentsOfDir env (modulesDir imp) virtualStoreDir
             (emit (LoggerInfo (''Recreating '' @ modulesDir imp) (rootDir imp)) w) of
        (Some err, w') \<Rightarrow> if code err \<noteq> Some ''ENOENT'' then (Some err, w') else (None, w')
      | (None, w') \<Rightarrow> (None, w'))"

section \<open>The modules validator\<close>

text \<open>
  The options of \<^verbatim>\<open>validateModules\<close>, the fields prefixed with \<open>v_\<close>. An optional
  boolean that is only tested for truth (\<^verbatim>\<open>forceHoistPattern\<close>,
  \<^verbatim>\<open>forcePublicHoistPattern\<close>, \<^verbatim>\<open>global\<close>) is a \<open>bool\<close>, absent being \<open>False\<close>; an
  optional array or object is an \<open>option\<close>, absent (\<^verbatim>\<open>undefined\<close>) being \<open>None\<close>.
\<close>

record ValidateOpts =
  v_currentHoistPattern :: "string list option"
  v_currentPublicHoistPattern :: "string list option"
  v_forceNewModules :: bool
  v_include :: "IncludedDependencies option"
  v_lockfileDir :: string
  v_modulesDir :: string
  v_registries :: Registries
  v_storeDir :: string
  v_virtualStoreDir :: string
  v_hoistPattern :: "string list option"
  v_forceHoistPattern :: bool
  v_publicHoistPattern :: "string list option"
  v_forcePublicHoistPattern :: bool
  v_global :: bool

text \<open>
  \<^verbatim>\<open>x || undefined\<close> for \<^verbatim>\<open>x: string[] | undefined\<close>. In JavaScript every array is
  truthy, the empty one too, so the expression is \<^verbatim>\<open>x\<close> for an array and
  \<^verbatim>\<open>undefined\<close> for \<^verbatim>\<open>undefined\<close>.
\<close>

fun truthy :: "string list option \<Rightarrow> bool" where
  "truthy None = False"
| "truthy (Some xs) = True"

definition or_undefined :: "string list option \<Rightarrow> string list option" where
  "or_undefined x = (if truthy x then x else None)"

text \<open>\<^verbatim>\<open>x?.length\<close> as a condition: an array that has an element.\<close>

fun nonEmptyLength :: "string list option \<Rightarrow> bool" where
  "nonEmptyLength None = False"
| "nonEmptyLength (Some xs) = (length xs \<noteq> 0)"

text \<open>Lines 245 to 260: the hoist pattern, checked for a root project under \<^verbatim>\<open>forceHoistPattern\<close>.\<close>

definition hoistPatternCheck :: "('w, 'z) sys_scheme \<Rightarrow> 'p project_scheme option \<Rightarrow> ValidateOpts \<Rightarrow> 'w world \<Rightarrow> (error + bool) \<times> 'w world" where
  "hoistPatternCheck env rootProject opts w =
     (case rootProject of
        None \<Rightarrow> (Inr False, w)
      | Some rp \<Rightarrow>
          if v_forceHoistPattern opts then
            (if v_currentHoistPattern opts \<noteq> or_undefined (v_hoistPattern opts) then
               (if \<not> v_forceNewModules opts then (Inl (PnpmError ''HOIST_PATTERN_DIFF''), w)
                else (case purgeModulesDirsOfImporter env (v_virtualStoreDir opts) rp w of
                        (Some e, w') \<Rightarrow> (Inl e, w')
                      | (None, w') \<Rightarrow> (Inr True, w')))
             else (Inr False, w))
          else (Inr False, w))"

text \<open>The loop over \<^verbatim>\<open>DEPENDENCIES_FIELDS\<close>, lines 269 to 276.\<close>

fun includedDepsLoop :: "string list \<Rightarrow> IncludedDependencies \<Rightarrow> IncludedDependencies \<Rightarrow> error option" where
  "includedDepsLoop [] inc minc = None"
| "includedDepsLoop (depsField # rest) inc minc =
     (if inc depsField \<noteq> minc depsField then Some (PnpmError ''INCLUDED_DEPS_CONFLICT'')
      else includedDepsLoop rest inc minc)"

text \<open>
  The body of the \<^verbatim>\<open>try\<close> for one project, lines 263 to 277: the error thrown, if any.
  The fields are compared when \<^verbatim>\<open>opts.lockfileDir !== project.rootDir\<close>,
  \<^verbatim>\<open>opts.include != null\<close> and \<^verbatim>\<open>modules.included\<close> is there.
\<close>

definition checkProject :: "('w, 'z) sys_scheme \<Rightarrow> Modules \<Rightarrow> ValidateOpts \<Rightarrow> 'p project_scheme \<Rightarrow> error option" where
  "checkProject env modules opts p =
     (case checkCompatibility env modules (modulesDir p) (v_storeDir opts) (v_virtualStoreDir opts) of
        Some e \<Rightarrow> Some e
      | None \<Rightarrow>
          (case (v_include opts, m_included modules) of
             (Some inc, Some minc) \<Rightarrow>
               if v_lockfileDir opts \<noteq> rootDir p
               then includedDepsLoop (DEPENDENCIES_FIELDS env) inc minc
               else None
           | _ \<Rightarrow> None))"

text \<open>
  \<^verbatim>\<open>Promise.all(projects.map(async (project) => ...))\<close>, lines 261 to 283. The checks of a
  project are synchronous and do not read the file system, so they run in the order of the
  list; the purges are awaited, and in the source the effects of the purges of different
  projects may interleave. The model runs the projects one after the other, a purge right
  after the check that asks for it, so the trace has the effects of one project before
  those of the next; and it ends with the first error. Without \<^verbatim>\<open>forceNewModules\<close> that
  is the error of the first failing project, the one \<^verbatim>\<open>Promise.all\<close> rejects with, and
  nothing is purged. With it, a purge that fails ends the model's run there, while in the
  source the purges of the other projects have been started and go on after the rejection:
  the model is that of the source on the runs in which no purge fails, up to the order of
  the effects of different projects. The argument \<open>purged\<close> is the
  variable of that name, which a purge sets.
\<close>

fun validateProjects :: "('w, 'z) sys_scheme \<Rightarrow> Modules \<Rightarrow> ValidateOpts \<Rightarrow> bool \<Rightarrow> 'p project_scheme list \<Rightarrow> 'w world \<Rightarrow> (error + bool) \<times> 'w world" where
  "validateProjects env modules opts purged [] w = (Inr purged, w)"
| "validateProjects env modules opts purged (p # ps) w =
     (case checkProject env modules opts p of
        None \<Rightarrow> validateProjects env modules opts purged ps w
      | Some err \<Rightarrow>
          if \<not> v_forceNewModules opts then (Inl err, w)
          else (case purgeModulesDirsOfImporter env (v_virtualStoreDir opts) p w of
                  (Some e, w') \<Rightarrow> (Inl e, w')
                | (None, w') \<Rightarrow> validateProjects env modules opts True ps w'))"

text \<open>
  \<^verbatim>\<open>Promise.all(projects.map(purgeModulesDirsOfImporter.bind(null, opts.virtualStoreDir)))\<close>,
  line 286, one project after the other and up to the first purge that fails, as above.
\<close>

fun purgeAll :: "('w, 'z) sys_scheme \<Rightarrow> string \<Rightarrow> 'p project_scheme list \<Rightarrow> 'w world \<Rightarrow> error option \<times> 'w world" where
  "purgeAll env virtualStoreDir [] w = (None, w)"
| "purgeAll env virtualStoreDir (p # ps) w =
     (case purgeModulesDirsOfImporter env virtualStoreDir p w of
        (Some e, w') \<Rightarrow> (Some e, w')
      | (None, w') \<Rightarrow> purgeAll env virtualStoreDir ps w')"

text \<open>Lines 284 to 297: the registries, then the purge of the lockfile directory's modules.\<close>

definition registriesCheck :: "('w, 'z) sys_scheme \<Rightarrow> Modules \<Rightarrow> 'p project_scheme list \<Rightarrow> ValidateOpts \<Rightarrow> bool \<Rightarrow> 'w world \<Rightarrow> (error + bool) \<times> 'w world" where
  "registriesCheck env modules projects opts purged w =
     (if m_registries modules \<noteq> None \<and> Some (v_registries opts) \<noteq> m_registries modules then
        (if v_forceNewModules opts then
           (case purgeAll env (v_virtualStoreDir opts) projects w of
              (Some e, w') \<Rightarrow> (Inl e, w')
            | (None, w') \<Rightarrow> (Inr True, w'))
         else (Inl (PnpmError ''REGISTRIES_MISMATCH''), w))
      else if purged \<and> find (\<lambda>p. id' p = ''.'') projects = None then
        (case purgeModulesDirsOfImporter env (v_virtualStoreDir opts)
                \<lparr>modulesDir = path_join env (v_lockfileDir opts) (v_modulesDir opts),
                 rootDir = v_lockfileDir opts\<rparr> w of
           (Some e, w') \<Rightarrow> (Inl e, w')
         | (None, w') \<Rightarrow> (Inr purged, w'))
      else (Inr purged, w))"

text \<open>
  \<^verbatim>\<open>validateModules\<close>: the error thrown or the value of \<^verbatim>\<open>purged\<close> returned, and the
  world the call leaves behind.
\<close>

definition validateModules :: "('w, 'z) sys_scheme \<Rightarrow> Modules \<Rightarrow> 'p project_scheme list \<Rightarrow> ValidateOpts \<Rightarrow> 'w world \<Rightarrow> (error + bool) \<times> 'w world" where
  "validateModules env modules projects opts w =
     (let rootProject = find (\<lambda>p. id' p = ''.'') projects in
      if v_forcePublicHoistPattern opts \<and>
         m_publicHoistPattern modules \<noteq> or_undefined (v_publicHoistPattern opts)
      then
        (case rootProject of
           Some rp \<Rightarrow>
             if v_forceNewModules opts then
               (case purgeModulesDirsOfImporter env (v_virtualStoreDir opts) rp w of
                  (Some e, w') \<Rightarrow> (Inl e, w')
                | (None, w') \<Rightarrow> (Inr True, w'))
             else (Inl (PnpmError ''PUBLIC_HOIST_PATTERN_DIFF''), w)
         | None \<Rightarrow> (Inl (PnpmError ''PUBLIC_HOIST_PATTERN_DIFF''), w))
      else
        (case hoistPatternCheck env rootProject opts w of
           (Inl e, w1) \<Rightarrow> (Inl e, w1)
         | (Inr purged1, w1) \<Rightarrow>
             (case validateProjects env modules opts purged1 projects w1 of
                (Inl e, w2) \<Rightarrow> (Inl e, w2)
              | (Inr purged2, w2) \<Rightarrow> registriesCheck env modules projects opts purged2 w2)))"

section \<open>The path resolver\<close>

datatype nodeLinker = isolated | hoisted | pnp

text \<open>
  \<^verbatim>\<open>getExtraNodePaths\<close>; \<^verbatim>\<open>extendNodePath\<close> is optional and defaults to \<^verbatim>\<open>true\<close> in the
  parameter list.
\<close>

definition getExtraNodePaths :: "('w, 'z) sys_scheme \<Rightarrow> bool option \<Rightarrow> string list option \<Rightarrow> nodeLinker \<Rightarrow> string \<Rightarrow> string list" where
  "getExtraNodePaths env extendNodePath hoistPattern nodeLinker virtualStoreDir =
     (if (case extendNodePath of None \<Rightarrow> True | Some b \<Rightarrow> b) \<and>
         nodeLinker = isolated \<and>
         nonEmptyLength hoistPattern
      then [path_join env virtualStoreDir ''node_modules'']
      else [])"

section \<open>The context builders\<close>

text \<open>
  The result of \<^verbatim>\<open>readProjectsContext\<close>, the fields prefixed with \<open>ic_\<close>. The type of the
  projects it returns is a parameter. \<^verbatim>\<open>hoistedDependencies\<close>, which the builders copy
  into their result and do not read, is left out.
\<close>

record 'rp importersContext =
  ic_currentHoistPattern :: "string list option"
  ic_currentPublicHoistPattern :: "string list option"
  ic_projects :: "'rp list"
  ic_include :: IncludedDependencies
  ic_modules :: "Modules option"
  ic_pendingBuilds :: "string list"
  ic_registries :: "Registries option"
  ic_rootModulesDir :: string
  ic_skipped :: "string set"

text \<open>
  The collaborators of the builders, added to the environment: \<^verbatim>\<open>pathAbsolute\<close>,
  \<^verbatim>\<open>fs.mkdir\<close> with \<^verbatim>\<open>recursive: true\<close>, \<^verbatim>\<open>readProjectsContext projects lockfileDir
  modulesDir\<close> and \<^verbatim>\<open>readLockfiles\<close>. Of the options of \<^verbatim>\<open>readLockfiles\<close>, those
  that the builders compute are arguments (\<open>lockfileDir\<close>, the id and root directory of
  each project, \<open>registries.default\<close>, \<open>virtualStoreDir\<close>, \<open>frozenLockfile\<close>); those they
  hand on as they got them are part of the parameter. Its result, which is spread into
  the context, is of an arbitrary type \<open>'l\<close>.
\<close>

record ('w, 'po, 'rp, 'l) ctx_sys = "'w sys" +
  pathAbsolute :: "string \<Rightarrow> string \<Rightarrow> string"
  fs_mkdir :: "string \<Rightarrow> 'w \<Rightarrow> error option \<times> 'w"
  readProjectsContext :: "'po list \<Rightarrow> string \<Rightarrow> string option \<Rightarrow> 'w \<Rightarrow> error + 'rp importersContext"
  readLockfiles :: "string \<Rightarrow> (string \<times> string) list \<Rightarrow> string option \<Rightarrow> string \<Rightarrow> bool \<Rightarrow> 'w \<Rightarrow> error + 'l"

definition do_readProjectsContext :: "('w, 'po, 'rp, 'l, 'z) ctx_sys_scheme \<Rightarrow> 'po list \<Rightarrow> string \<Rightarrow> string option \<Rightarrow> 'w world \<Rightarrow> (error + 'rp importersContext) \<times> 'w world" where
  "do_readProjectsContext env projects lockfileDir modulesDirName w =
     (readProjectsContext env projects lockfileDir modulesDirName (fs w), emit ReadProjectsContext w)"

definition do_mkdir :: "('w, 'po, 'rp, 'l, 'z) ctx_sys_scheme \<Rightarrow> string \<Rightarrow> 'w world \<Rightarrow> error option \<times> 'w world" where
  "do_mkdir env p w =
     (case fs_mkdir env p (fs w) of
        (r, f) \<Rightarrow> (r, emit (Mkdir p) (w\<lparr>fs := f\<rparr>)))"

definition do_readLockfiles :: "('w, 'po, 'rp, 'l, 'z) ctx_sys_scheme \<Rightarrow> string \<Rightarrow> (string \<times> string) list \<Rightarrow> string option \<Rightarrow> string \<Rightarrow> bool \<Rightarrow> 'w world \<Rightarrow> (error + 'l) \<times> 'w world" where
  "do_readLockfiles env lockfileDir projects registry virtualStoreDir frozenLockfile w =
     (readLockfiles env lockfileDir projects registry virtualStoreDir frozenLockfile (fs w),
      emit ReadLockfiles w)"

text \<open>\<^verbatim>\<open>a ?? b\<close>.\<close>

fun nullish :: "'a option \<Rightarrow> 'a option \<Rightarrow> 'a option" where
  "nullish None b = b"
| "nullish (Some a) b = Some a"

subsection \<open>\<^verbatim>\<open>getContext\<close>\<close>

text \<open>
  A project of \<^verbatim>\<open>opts.allProjects\<close> (\<open>po_\<close>) and a project as \<^verbatim>\<open>readProjectsContext\<close>
  returns it to \<^verbatim>\<open>getContext\<close>: the importer's two directories, the id, the manifest and
  the manifest before the hook (\<open>p_\<close>). The local \<^verbatim>\<open>modulesDir\<close> of the builders is
  \<open>modulesDirName\<close> here, the name of the importer's field being taken. \<^verbatim>\<open>buildIndex\<close> and \<^verbatim>\<open>binsDir\<close>, which the file never
  reads, are left out.
\<close>

record 'm ProjectOptions =
  po_rootDir :: string
  po_modulesDir :: "string option"
  po_manifest :: 'm
  po_originalManifest :: "'m option"

record 'm contextProject = project +
  p_manifest :: 'm
  p_originalManifest :: "'m option"

text \<open>
  \<^verbatim>\<open>GetContextOptions\<close>, the fields prefixed with \<open>o_\<close>. \<^verbatim>\<open>forceNewModules\<close> is compared
  with \<^verbatim>\<open>true\<close>, so it keeps its three values. The hook is awaited and may throw.
\<close>

record 'm GetContextOptions =
  o_allProjects :: "'m ProjectOptions list"
  o_forceNewModules :: "bool option"
  o_frozenLockfile :: "bool option"
  o_extraBinPaths :: "string list"
  o_extendNodePath :: "bool option"
  o_lockfileDir :: string
  o_modulesDir :: "string option"
  o_nodeLinker :: nodeLinker
  o_readPackageHook :: "('m \<Rightarrow> string \<Rightarrow> error + 'm) option"
  o_include :: "IncludedDependencies option"
  o_registries :: Registries
  o_storeDir :: string
  o_virtualStoreDir :: "string option"
  o_hoistPattern :: "string list option"
  o_forceHoistPattern :: bool
  o_publicHoistPattern :: "string list option"
  o_forcePublicHoistPattern :: bool
  o_global :: bool

text \<open>\<^verbatim>\<open>PnpmContext\<close>, the fields prefixed with \<open>c_\<close>; \<open>c_lockfiles\<close> is what \<^verbatim>\<open>readLockfiles\<close> returned.\<close>

record ('m, 'l) PnpmContext =
  c_extraBinPaths :: "string list"
  c_extraNodePaths :: "string list"
  c_hoistedModulesDir :: string
  c_hoistPattern :: "string list option"
  c_include :: IncludedDependencies
  c_lockfileDir :: string
  c_modulesFile :: "Modules option"
  c_pendingBuilds :: "string list"
  c_projects :: "string \<rightharpoonup> 'm contextProject"
  c_publicHoistPattern :: "string list option"
  c_registries :: Registries
  c_rootModulesDir :: string
  c_skipped :: "string set"
  c_storeDir :: string
  c_virtualStoreDir :: string
  c_lockfiles :: 'l

text \<open>Lines 109 to 134: the descriptor is validated and, after a purge, the projects are read again.\<close>

definition validateAndReread :: "('w, 'm ProjectOptions, 'm contextProject, 'l, 'z) ctx_sys_scheme \<Rightarrow> 'm GetContextOptions \<Rightarrow> string \<Rightarrow> string \<Rightarrow> 'm contextProject importersContext \<Rightarrow> 'w world \<Rightarrow> (error + 'm contextProject importersContext) \<times> 'w world" where
  "validateAndReread env opts modulesDirName virtualStoreDir importersContext w =
     (case ic_modules importersContext of
        None \<Rightarrow> (Inr importersContext, w)
      | Some modules \<Rightarrow>
          (case validateModules env modules (ic_projects importersContext)
                  \<lparr>v_currentHoistPattern = ic_currentHoistPattern importersContext,
                   v_currentPublicHoistPattern = ic_currentPublicHoistPattern importersContext,
                   v_forceNewModules = (o_forceNewModules opts = Some True),
                   v_include = o_include opts,
                   v_lockfileDir = o_lockfileDir opts,
                   v_modulesDir = modulesDirName,
                   v_registries = o_registries opts,
                   v_storeDir = o_storeDir opts,
                   v_virtualStoreDir = virtualStoreDir,
                   v_hoistPattern = o_hoistPattern opts,
                   v_forceHoistPattern = o_forceHoistPattern opts,
                   v_publicHoistPattern = o_publicHoistPattern opts,
                   v_forcePublicHoistPattern = o_forcePublicHoistPattern opts,
                   v_global = o_global opts\<rparr>
                  (emit CallValidateModules w) of
             (Inl e, w') \<Rightarrow> (Inl e, w')
           | (Inr purged, w') \<Rightarrow>
               if purged
               then do_readProjectsContext env (o_allProjects opts) (o_lockfileDir opts) (Some modulesDirName) w'
               else (Inr importersContext, w')))"

text \<open>Lines 144 to 149: the hook rewrites the manifest of each project and keeps the original.\<close>

fun applyReadPackageHook :: "('m \<Rightarrow> string \<Rightarrow> error + 'm) \<Rightarrow> 'm contextProject list \<Rightarrow> error + 'm contextProject list" where
  "applyReadPackageHook hook [] = Inr []"
| "applyReadPackageHook hook (p # ps) =
     (case hook (p_manifest p) (rootDir p) of
        Inl e \<Rightarrow> Inl e
      | Inr m \<Rightarrow>
          (case applyReadPackageHook hook ps of
             Inl e \<Rightarrow> Inl e
           | Inr ps' \<Rightarrow> Inr (p\<lparr>p_originalManifest := Some (p_manifest p), p_manifest := m\<rparr> # ps')))"

text \<open>Lines 136 to 199, from \<^verbatim>\<open>fs.mkdir\<close> to the end.\<close>

definition assembleContext :: "('w, 'm ProjectOptions, 'm contextProject, 'l, 'z) ctx_sys_scheme \<Rightarrow> 'm GetContextOptions \<Rightarrow> string \<Rightarrow> 'm contextProject importersContext \<Rightarrow> 'w world \<Rightarrow> (error + ('m, 'l) PnpmContext) \<times> 'w world" where
  "assembleContext env opts virtualStoreDir importersContext w =
     (case do_mkdir env (o_storeDir opts) w of
        (Some e, w1) \<Rightarrow> (Inl e, w1)
      | (None, w1) \<Rightarrow>
          (let w2 = fold (\<lambda>p. emit (PackageManifestDebug (po_rootDir p))) (o_allProjects opts) w1 in
           case (case o_readPackageHook opts of
                   None \<Rightarrow> Inr (ic_projects importersContext)
                 | Some hook \<Rightarrow> applyReadPackageHook hook (ic_projects importersContext)) of
             Inl e \<Rightarrow> (Inl e, w2)
           | Inr projects \<Rightarrow>
               (let hoistedModulesDir = path_join env virtualStoreDir ''node_modules'';
                    extraBinPaths =
                      (if nonEmptyLength (o_hoistPattern opts)
                       then path_join env hoistedModulesDir ''.bin'' # o_extraBinPaths opts
                       else o_extraBinPaths opts);
                    hoistPattern = nullish (ic_currentHoistPattern importersContext) (o_hoistPattern opts)
                in case do_readLockfiles env (o_lockfileDir opts)
                          (map (\<lambda>p. (id' p, rootDir p)) projects)
                          (o_registries opts ''default'') virtualStoreDir
                          (o_frozenLockfile opts = Some True) w2 of
                     (Inl e, w3) \<Rightarrow> (Inl e, w3)
                   | (Inr lockfiles, w3) \<Rightarrow>
                       (Inr \<lparr>c_extraBinPaths = extraBinPaths,
                             c_extraNodePaths = getExtraNodePaths env (o_extendNodePath opts) hoistPattern
                                                  (o_nodeLinker opts) virtualStoreDir,
                             c_hoistedModulesDir = hoistedModulesDir,
                             c_hoistPattern = hoistPattern,
                             c_include = (case o_include opts of Some i \<Rightarrow> i
                                          | None \<Rightarrow> ic_include importersContext),
                             c_lockfileDir = o_lockfileDir opts,
                             c_modulesFile = ic_modules importersContext,
                             c_pendingBuilds = ic_pendingBuilds importersContext,
                             c_projects = map_of (rev (map (\<lambda>p. (rootDir p, p)) projects)),
                             c_publicHoistPattern = nullish (ic_currentPublicHoistPattern importersContext)
                                                      (o_publicHoistPattern opts),
                             c_registries = o_registries opts ++
                                            (case ic_registries importersContext of Some r \<Rightarrow> r
                                             | None \<Rightarrow> Map.empty),
                             c_rootModulesDir = ic_rootModulesDir importersContext,
                             c_skipped = ic_skipped importersContext,
                             c_storeDir = o_storeDir opts,
                             c_virtualStoreDir = virtualStoreDir,
                             c_lockfiles = lockfiles\<rparr>,
                        emit (ContextDebug (o_storeDir opts) virtualStoreDir) w3))))"

definition getContext :: "('w, 'm ProjectOptions, 'm contextProject, 'l, 'z) ctx_sys_scheme \<Rightarrow> 'm GetContextOptions \<Rightarrow> 'w world \<Rightarrow> (error + ('m, 'l) PnpmContext) \<times> 'w world" where
  "getContext env opts w =
     (let modulesDirName = (case o_modulesDir opts of Some d \<Rightarrow> d | None \<Rightarrow> ''node_modules'') in
      case do_readProjectsContext env (o_allProjects opts) (o_lockfileDir opts) (Some modulesDirName) w of
        (Inl e, w1) \<Rightarrow> (Inl e, w1)
      | (Inr importersContext, w1) \<Rightarrow>
          (let virtualStoreDir =
                 pathAbsolute env
                   (case o_virtualStoreDir opts of Some d \<Rightarrow> d
                    | None \<Rightarrow> path_join env modulesDirName ''.pnpm'')
                   (o_lockfileDir opts)
           in case validateAndReread env opts modulesDirName virtualStoreDir importersContext w1 of
                (Inl e, w2) \<Rightarrow> (Inl e, w2)
              | (Inr importersContext', w2) \<Rightarrow>
                  assembleContext env opts virtualStoreDir importersContext' w2))"

subsection \<open>\<^verbatim>\<open>getContextForSingleImporter\<close>\<close>

text \<open>
  The one project handed to \<^verbatim>\<open>readProjectsContext\<close> is \<^verbatim>\<open>{ rootDir: opts.dir }\<close>; the
  projects that come back are read for \<^verbatim>\<open>modulesDir\<close> and \<^verbatim>\<open>id\<close>. The options are
  prefixed with \<open>s_\<close>, the fields of \<^verbatim>\<open>PnpmSingleContext\<close> with \<open>sc_\<close>.
\<close>

record RootDirOnly =
  r_rootDir :: string

record 'm SingleImporterOptions =
  s_forceNewModules :: "bool option"
  s_extraBinPaths :: "string list"
  s_extendNodePath :: "bool option"
  s_lockfileDir :: string
  s_nodeLinker :: nodeLinker
  s_modulesDir :: "string option"
  s_readPackageHook :: "('m \<Rightarrow> error + 'm) option"
  s_include :: "IncludedDependencies option"
  s_dir :: string
  s_registries :: Registries
  s_storeDir :: string
  s_virtualStoreDir :: "string option"
  s_hoistPattern :: "string list option"
  s_forceHoistPattern :: bool
  s_publicHoistPattern :: "string list option"
  s_forcePublicHoistPattern :: bool

record ('m, 'l) PnpmSingleContext =
  sc_extraBinPaths :: "string list"
  sc_extraNodePaths :: "string list"
  sc_hoistedModulesDir :: string
  sc_hoistPattern :: "string list option"
  sc_importerId :: string
  sc_include :: IncludedDependencies
  sc_lockfileDir :: string
  sc_manifest :: 'm
  sc_modulesDir :: string
  sc_modulesFile :: "Modules option"
  sc_pendingBuilds :: "string list"
  sc_prefix :: string
  sc_publicHoistPattern :: "string list option"
  sc_registries :: Registries
  sc_rootModulesDir :: string
  sc_skipped :: "string set"
  sc_storeDir :: string
  sc_virtualStoreDir :: string
  sc_lockfiles :: 'l

text \<open>Lines 459 to 516, from \<^verbatim>\<open>fs.mkdir\<close> to the end.\<close>

definition assembleSingleContext :: "('w, RootDirOnly, project, 'l, 'z) ctx_sys_scheme \<Rightarrow> 'm \<Rightarrow> 'm SingleImporterOptions \<Rightarrow> string \<Rightarrow> project \<Rightarrow> project importersContext \<Rightarrow> 'w world \<Rightarrow> (error + ('m, 'l) PnpmSingleContext) \<times> 'w world" where
  "assembleSingleContext env manifest0 opts virtualStoreDir importer rc w =
     (case do_mkdir env (s_storeDir opts) w of
        (Some e, w1) \<Rightarrow> (Inl e, w1)
      | (None, w1) \<Rightarrow>
          (let hoistedModulesDir = path_join env virtualStoreDir ''node_modules'';
               extraBinPaths =
                 (if nonEmptyLength (s_hoistPattern opts)
                  then path_join env hoistedModulesDir ''.bin'' # s_extraBinPaths opts
                  else s_extraBinPaths opts);
               hoistPattern = nullish (ic_currentHoistPattern rc) (s_hoistPattern opts)
           in case (case s_readPackageHook opts of
                      None \<Rightarrow> Inr manifest0
                    | Some hook \<Rightarrow> hook manifest0) of
                Inl e \<Rightarrow> (Inl e, w1)
              | Inr m \<Rightarrow>
                  (case do_readLockfiles env (s_lockfileDir opts) [(id' importer, s_dir opts)]
                          (s_registries opts ''default'') virtualStoreDir False w1 of
                     (Inl e, w2) \<Rightarrow> (Inl e, w2)
                   | (Inr lockfiles, w2) \<Rightarrow>
                       (Inr \<lparr>sc_extraBinPaths = extraBinPaths,
                             sc_extraNodePaths = getExtraNodePaths env (s_extendNodePath opts) hoistPattern
                                                   (s_nodeLinker opts) virtualStoreDir,
                             sc_hoistedModulesDir = hoistedModulesDir,
                             sc_hoistPattern = hoistPattern,
                             sc_importerId = id' importer,
                             sc_include = (case s_include opts of Some i \<Rightarrow> i
                                           | None \<Rightarrow> ic_include rc),
                             sc_lockfileDir = s_lockfileDir opts,
                             sc_manifest = m,
                             sc_modulesDir = modulesDir importer,
                             sc_modulesFile = ic_modules rc,
                             sc_pendingBuilds = ic_pendingBuilds rc,
                             sc_prefix = s_dir opts,
                             sc_publicHoistPattern = nullish (ic_currentPublicHoistPattern rc)
                                                       (s_publicHoistPattern opts),
                             sc_registries = s_registries opts ++
                                             (case ic_registries rc of Some r \<Rightarrow> r
                                              | None \<Rightarrow> Map.empty),
                             sc_rootModulesDir = ic_rootModulesDir rc,
                             sc_skipped = ic_skipped rc,
                             sc_storeDir = s_storeDir opts,
                             sc_virtualStoreDir = virtualStoreDir,
                             sc_lockfiles = lockfiles\<rparr>,
                        emit (ContextDebug (s_storeDir opts) virtualStoreDir)
                          (emit (PackageManifestDebug (s_dir opts)) w2)))))"

text \<open>
  The function calls itself after a purge, with \<^verbatim>\<open>alreadyPurged\<close> set. \<^verbatim>\<open>projects[0]\<close> of
  an empty list is \<^verbatim>\<open>undefined\<close>, and reading its \<^verbatim>\<open>modulesDir\<close> throws.
\<close>

function getContextForSingleImporter :: "('w, RootDirOnly, project, 'l, 'z) ctx_sys_scheme \<Rightarrow> 'm \<Rightarrow> 'm SingleImporterOptions \<Rightarrow> bool \<Rightarrow> 'w world \<Rightarrow> (error + ('m, 'l) PnpmSingleContext) \<times> 'w world" where
  "getContextForSingleImporter env manifest0 opts alreadyPurged w =
     (case do_readProjectsContext env [\<lparr>r_rootDir = s_dir opts\<rparr>] (s_lockfileDir opts) (s_modulesDir opts) w of
        (Inl e, w1) \<Rightarrow> (Inl e, w1)
      | (Inr rc, w1) \<Rightarrow>
          (case ic_projects rc of
             [] \<Rightarrow> (Inl TypeError, w1)
           | importer # _ \<Rightarrow>
               (let virtualStoreDir =
                      pathAbsolute env
                        (case s_virtualStoreDir opts of Some d \<Rightarrow> d | None \<Rightarrow> ''node_modules/.pnpm'')
                        (s_lockfileDir opts)
                in case ic_modules rc of
                     None \<Rightarrow> assembleSingleContext env manifest0 opts virtualStoreDir importer rc w1
                   | Some modules \<Rightarrow>
                       if \<not> alreadyPurged then
                         (case validateModules env modules (ic_projects rc)
                                 \<lparr>v_currentHoistPattern = ic_currentHoistPattern rc,
                                  v_currentPublicHoistPattern = ic_currentPublicHoistPattern rc,
                                  v_forceNewModules = (s_forceNewModules opts = Some True),
                                  v_include = s_include opts,
                                  v_lockfileDir = s_lockfileDir opts,
                                  v_modulesDir = (case s_modulesDir opts of Some d \<Rightarrow> d
                                                  | None \<Rightarrow> ''node_modules''),
                                  v_registries = s_registries opts,
                                  v_storeDir = s_storeDir opts,
                                  v_virtualStoreDir = virtualStoreDir,
                                  v_hoistPattern = s_hoistPattern opts,
                                  v_forceHoistPattern = s_forceHoistPattern opts,
                                  v_publicHoistPattern = s_publicHoistPattern opts,
                                  v_forcePublicHoistPattern = s_forcePublicHoistPattern opts,
                                  v_global = False\<rparr>
                                 (emit CallValidateModules w1) of
                            (Inl e, w2) \<Rightarrow> (Inl e, w2)
                          | (Inr purged, w2) \<Rightarrow>
                              if purged then getContextForSingleImporter env manifest0 opts True w2
                              else assembleSingleContext env manifest0 opts virtualStoreDir importer rc w2)
                       else assembleSingleContext env manifest0 opts virtualStoreDir importer rc w1)))"
  by pat_completeness auto
termination
  by (relation "measure (\<lambda>(env, manifest0, opts, alreadyPurged, w). if alreadyPurged then 0 else 1)") auto

section \<open>A sample environment\<close>

text \<open>
  A small environment on which the definitions run, for the evaluations at concrete
  inputs below. Its file system lists the entries of each directory; \<open>sample_rimraf\<close>
  removes a path from the listing of its parent, with the listings below it. Joining puts a
  slash between two paths, and two directories are equal when their paths are.
\<close>

type_synonym sample_fs = "(string \<times> string list) list"

definition sample_join :: "string \<Rightarrow> string \<Rightarrow> string" where
  "sample_join a b = a @ ''/'' @ b"

definition sample_relative :: "string \<Rightarrow> string \<Rightarrow> string" where
  "sample_relative a b = (if a = b then [] else ''..'')"

definition sample_readdir :: "string \<Rightarrow> sample_fs \<Rightarrow> error + string list" where
  "sample_readdir d f = (case map_of f d of None \<Rightarrow> Inl (SystemError ''ENOENT'') | Some items \<Rightarrow> Inr items)"

definition sample_rimraf :: "string \<Rightarrow> sample_fs \<Rightarrow> error option \<times> sample_fs" where
  "sample_rimraf p f =
     (None, map (\<lambda>(d, items). (d, filter (\<lambda>item. sample_join d item \<noteq> p) items))
              (filter (\<lambda>(d, items). d \<noteq> p \<and> \<not> startsWith d (p @ ''/'')) f))"

definition sample_sys :: "sample_fs sys" where
  "sample_sys =
     \<lparr>path_join = sample_join,
      path_relative = sample_relative,
      fs_readdir = sample_readdir,
      rimraf = sample_rimraf,
      checkCompatibility = (\<lambda>modules modulesDirName storeDir virtualStoreDir. None),
      DEPENDENCIES_FIELDS = [''optionalDependencies'', ''dependencies'', ''devDependencies'']\<rparr>"

definition sample_fs :: sample_fs where
  "sample_fs =
     [(''/p/node_modules'', [''.bin'', ''.keep'', ''.modules.yaml'', ''.pnpm'', ''lodash'']),
      (''/p/node_modules/.pnpm'', [''lodash@4'']),
      (''/p/sub/node_modules'', [''lodash''])]"

text \<open>
  A descriptor, options of \<^verbatim>\<open>validateModules\<close> that agree with it, and two projects: the
  root project of the lockfile directory \<^verbatim>\<open>/p\<close> and a project below it.
\<close>

definition sample_modules :: Modules where
  "sample_modules =
     \<lparr>m_publicHoistPattern = None,
      m_included = Some (\<lambda>depsField. True),
      m_registries = Some [''default'' \<mapsto> ''https://registry.npmjs.org/'']\<rparr>"

definition sample_opts :: ValidateOpts where
  "sample_opts =
     \<lparr>v_currentHoistPattern = Some [''*''],
      v_currentPublicHoistPattern = None,
      v_forceNewModules = False,
      v_include = Some (\<lambda>depsField. True),
      v_lockfileDir = ''/p'',
      v_modulesDir = ''node_modules'',
      v_registries = [''default'' \<mapsto> ''https://registry.npmjs.org/''],
      v_storeDir = ''/store'',
      v_virtualStoreDir = ''/p/node_modules/.pnpm'',
      v_hoistPattern = Some [''*''],
      v_forceHoistPattern = False,
      v_publicHoistPattern = None,
      v_forcePublicHoistPattern = False,
      v_global = False\<rparr>"

definition sample_root :: project where
  "sample_root = \<lparr>modulesDir = ''/p/node_modules'', rootDir = ''/p'', id' = ''.''\<rparr>"

definition sample_sub :: project where
  "sample_sub = \<lparr>modulesDir = ''/p/sub/node_modules'', rootDir = ''/p/sub'', id' = ''sub''\<rparr>"

text \<open>
  The collaborators of the builders. A descriptor is installed when the modules directory
  of the lockfile directory lists \<^verbatim>\<open>.modules.yaml\<close>; it is \<open>sample_modules\<close>, created
  with the hoist pattern \<^verbatim>\<open>['*']\<close>. A project's modules directory is below its root
  directory, and its id is its path from the lockfile directory. Manifests are strings.
\<close>

definition sample_pathAbsolute :: "string \<Rightarrow> string \<Rightarrow> string" where
  "sample_pathAbsolute p cwd = (if startsWith p ''/'' then p else sample_join cwd p)"

definition sample_mkdir :: "string \<Rightarrow> sample_fs \<Rightarrow> error option \<times> sample_fs" where
  "sample_mkdir p f = (None, if map_of f p = None then f @ [(p, [])] else f)"

definition sample_importersContext :: "'rp list \<Rightarrow> string \<Rightarrow> string option \<Rightarrow> sample_fs \<Rightarrow> 'rp importersContext" where
  "sample_importersContext projects lockfileDir modulesDirName f =
     (let rootModulesDir =
            sample_join lockfileDir (case modulesDirName of Some n \<Rightarrow> n | None \<Rightarrow> ''node_modules'');
          installed =
            (case map_of f rootModulesDir of
               Some items \<Rightarrow> ''.modules.yaml'' \<in> set items
             | None \<Rightarrow> False)
      in \<lparr>ic_currentHoistPattern = (if installed then Some [''*''] else None),
          ic_currentPublicHoistPattern = None,
          ic_projects = projects,
          ic_include = (\<lambda>depsField. True),
          ic_modules = (if installed then Some sample_modules else None),
          ic_pendingBuilds = [],
          ic_registries = (if installed then m_registries sample_modules else None),
          ic_rootModulesDir = rootModulesDir,
          ic_skipped = {}\<rparr>)"

definition sample_id :: "string \<Rightarrow> string \<Rightarrow> string" where
  "sample_id lockfileDir dir = (if dir = lockfileDir then ''.'' else drop (length lockfileDir + 1) dir)"

definition sample_readProjectsContext :: "string ProjectOptions list \<Rightarrow> string \<Rightarrow> string option \<Rightarrow> sample_fs \<Rightarrow> error + string contextProject importersContext" where
  "sample_readProjectsContext projects lockfileDir modulesDirName f =
     Inr (sample_importersContext
            (map (\<lambda>p. \<lparr>modulesDir = sample_join (po_rootDir p)
                                        (case modulesDirName of Some n \<Rightarrow> n | None \<Rightarrow> ''node_modules''),
                         rootDir = po_rootDir p,
                         id' = sample_id lockfileDir (po_rootDir p),
                         p_manifest = po_manifest p,
                         p_originalManifest = po_originalManifest p\<rparr>) projects)
            lockfileDir modulesDirName f)"

definition sample_readProjectContext :: "RootDirOnly list \<Rightarrow> string \<Rightarrow> string option \<Rightarrow> sample_fs \<Rightarrow> error + project importersContext" where
  "sample_readProjectContext projects lockfileDir modulesDirName f =
     Inr (sample_importersContext
            (map (\<lambda>p. \<lparr>modulesDir = sample_join (r_rootDir p)
                                        (case modulesDirName of Some n \<Rightarrow> n | None \<Rightarrow> ''node_modules''),
                         rootDir = r_rootDir p,
                         id' = sample_id lockfileDir (r_rootDir p)\<rparr>) projects)
            lockfileDir modulesDirName f)"

definition sample_context_sys :: "(sample_fs, string ProjectOptions, string contextProject, unit) ctx_sys" where
  "sample_context_sys =
     \<lparr>path_join = sample_join,
      path_relative = sample_relative,
      fs_readdir = sample_readdir,
      rimraf = sample_rimraf,
      checkCompatibility = (\<lambda>modules modulesDirName storeDir virtualStoreDir. None),
      DEPENDENCIES_FIELDS = [''optionalDependencies'', ''dependencies'', ''devDependencies''],
      pathAbsolute = sample_pathAbsolute,
      fs_mkdir = sample_mkdir,
      readProjectsContext = sample_readProjectsContext,
      readLockfiles = (\<lambda>lockfileDir projects registry virtualStoreDir frozenLockfile f. Inr ())\<rparr>"

definition sample_single_sys :: "(sample_fs, RootDirOnly, project, unit) ctx_sys" where
  "sample_single_sys =
     \<lparr>path_join = sample_join,
      path_relative = sample_relative,
      fs_readdir = sample_readdir,
      rimraf = sample_rimraf,
      checkCompatibility = (\<lambda>modules modulesDirName storeDir virtualStoreDir. None),
      DEPENDENCIES_FIELDS = [''optionalDependencies'', ''dependencies'', ''devDependencies''],
      pathAbsolute = sample_pathAbsolute,
      fs_mkdir = sample_mkdir,
      readProjectsContext = sample_readProjectContext,
      readLockfiles = (\<lambda>lockfileDir projects registry virtualStoreDir frozenLockfile f. Inr ())\<rparr>"

definition sample_context_opts :: "string GetContextOptions" where
  "sample_context_opts =
     \<lparr>o_allProjects = [\<lparr>po_rootDir = ''/p'', po_modulesDir = None, po_manifest = ''{}'',
                        po_originalManifest = None\<rparr>],
      o_forceNewModules = None,
      o_frozenLockfile = None,
      o_extraBinPaths = [''/usr/local/bin''],
      o_extendNodePath = None,
      o_lockfileDir = ''/p'',
      o_modulesDir = None,
      o_nodeLinker = isolated,
      o_readPackageHook = None,
      o_include = None,
      o_registries = [''default'' \<mapsto> ''https://registry.npmjs.org/''],
      o_storeDir = ''/store'',
      o_virtualStoreDir = None,
      o_hoistPattern = None,
      o_forceHoistPattern = False,
      o_publicHoistPattern = None,
      o_forcePublicHoistPattern = False,
      o_global = False\<rparr>"

definition sample_single_opts :: "string SingleImporterOptions" where
  "sample_single_opts =
     \<lparr>s_forceNewModules = None,
      s_extraBinPaths = [''/usr/local/bin''],
      s_extendNodePath = None,
      s_lockfileDir = ''/p'',
      s_nodeLinker = isolated,
      s_modulesDir = None,
      s_readPackageHook = None,
      s_include = None,
      s_dir = ''/p'',
      s_registries = [''default'' \<mapsto> ''https://registry.npmjs.org/''],
      s_storeDir = ''/store'',
      s_virtualStoreDir = None,
      s_hoistPattern = None,
      s_forceHoistPattern = False,
      s_publicHoistPattern = None,
      s_forcePublicHoistPattern = False\<rparr>"

section \<open>The purge engine: what is removed\<close>

lemma do_rimraf_trace: "do_rimraf env p w = (r, w') \<Longrightarrow> trace w' = trace w @ [Rimraf p]"
  by (auto simp: do_rimraf_def emit_def split: prod.splits)

lemma removeItems_any_trace:
  "removeItems env dir vsd items w = (r, w') \<Longrightarrow>
   \<exists>n. trace w' = trace w @ take n (map (\<lambda>item. Rimraf (path_join env dir item))
     (filter (\<lambda>item. \<not> (startsWith item ''.'' \<and> item \<noteq> ''.bin'' \<and> item \<noteq> ''.modules.yaml'' \<and>
        \<not> dirsAreEqual env (path_join env dir item) vsd)) items))"
proof (induction items arbitrary: w)
  case Nil
  then show ?case by simp
next
  case (Cons item items)
  show ?case
  proof (cases "startsWith item ''.'' \<and> item \<noteq> ''.bin'' \<and> item \<noteq> ''.modules.yaml'' \<and>
        \<not> dirsAreEqual env (path_join env dir item) vsd")
    case True
    with Cons.prems have "removeItems env dir vsd items w = (r, w')" by simp
    from Cons.IH[OF this] True show ?thesis by simp
  next
    case False
    obtain r1 w1 where rm: "do_rimraf env (path_join env dir item) w = (r1, w1)" by fastforce
    show ?thesis
    proof (cases r1)
      case None
      with Cons.prems False rm have rest: "removeItems env dir vsd items w1 = (r, w')" by simp
      from Cons.IH[OF rest] obtain n where "trace w' = trace w1 @ take n (map (\<lambda>item. Rimraf (path_join env dir item))
     (filter (\<lambda>item. \<not> (startsWith item ''.'' \<and> item \<noteq> ''.bin'' \<and> item \<noteq> ''.modules.yaml'' \<and>
        \<not> dirsAreEqual env (path_join env dir item) vsd)) items))" by blast
      with do_rimraf_trace[OF rm] False show ?thesis
        by (intro exI[of _ "Suc n"]) simp
    next
      case (Some e)
      with Cons.prems False rm have "w' = w1" by simp
      with do_rimraf_trace[OF rm] False show ?thesis
        by (intro exI[of _ "Suc 0"]) simp
    qed
  qed
qed


lemma removeItems_succeeds:
  "\<forall>p f. fst (rimraf env p f) = None \<Longrightarrow> fst (removeItems env dir vsd items w) = None"
proof (induction items arbitrary: w)
  case Nil
  then show ?case by simp
next
  case (Cons item items)
  obtain r f where rm: "rimraf env (path_join env dir item) (fs w) = (r, f)" by fastforce
  with Cons.prems have "r = None" by (metis fst_conv)
  with rm Cons show ?case by (simp add: do_rimraf_def)
qed

lemma do_rimraf_fs:
  "do_rimraf env p w = (r, w') \<Longrightarrow> fs w' = snd (rimraf env p (fs w)) \<and> fst (rimraf env p (fs w)) = r"
  by (auto simp: do_rimraf_def emit_def split: prod.splits)

lemma removeItems_rimrafAll:
  "removeItems env dir vsd items w =
     rimrafAll env
       (map (path_join env dir)
          (filter (\<lambda>item. \<not> (startsWith item ''.'' \<and> item \<noteq> ''.bin'' \<and> item \<noteq> ''.modules.yaml'' \<and>
                     \<not> dirsAreEqual env (path_join env dir item) vsd)) items)) w"
  by (induction items arbitrary: w) (auto split: prod.splits option.splits)

lemma rimrafAll_effect:
  "rimrafAll env ps w = (r, w') \<Longrightarrow>
   \<exists>n\<le>length ps.
     trace w' = trace w @ map Rimraf (take n ps) \<and>
     fs w' = foldl (\<lambda>f p. snd (rimraf env p f)) (fs w) (take n ps) \<and>
     (r = None \<longrightarrow> n = length ps) \<and>
     (\<forall>e. r = Some e \<longrightarrow>
        0 < n \<and>
        fst (rimraf env (ps ! (n - 1))
               (foldl (\<lambda>f p. snd (rimraf env p f)) (fs w) (take (n - 1) ps))) = Some e)"
proof (induction ps arbitrary: w)
  case Nil
  then show ?case by simp
next
  case (Cons p ps)
  obtain r1 w1 where rm: "do_rimraf env p w = (r1, w1)" by fastforce
  note f1 = do_rimraf_fs[OF rm] and t1 = do_rimraf_trace[OF rm]
  show ?case
  proof (cases r1)
    case (Some e)
    with Cons.prems rm have "r = Some e" "w' = w1" by simp_all
    with f1 t1 Some show ?thesis by (intro exI[of _ "Suc 0"]) simp
  next
    case None
    with Cons.prems rm have "rimrafAll env ps w1 = (r, w')" by simp
    from Cons.IH[OF this] obtain n where n: "n \<le> length ps"
      "trace w' = trace w1 @ map Rimraf (take n ps)"
      "fs w' = foldl (\<lambda>f p. snd (rimraf env p f)) (fs w1) (take n ps)"
      "r = None \<longrightarrow> n = length ps"
      "\<forall>e. r = Some e \<longrightarrow>
        0 < n \<and>
        fst (rimraf env (ps ! (n - 1))
               (foldl (\<lambda>f p. snd (rimraf env p f)) (fs w1) (take (n - 1) ps))) = Some e" by blast
    have failing: "\<forall>e. r = Some e \<longrightarrow>
        0 < Suc n \<and>
        fst (rimraf env ((p # ps) ! (Suc n - 1))
               (foldl (\<lambda>f p. snd (rimraf env p f)) (fs w) (take (Suc n - 1) (p # ps)))) = Some e"
    proof (intro allI impI)
      fix e assume "r = Some e"
      with n(5) have pos: "0 < n" and
        at: "fst (rimraf env (ps ! (n - 1))
               (foldl (\<lambda>f p. snd (rimraf env p f)) (fs w1) (take (n - 1) ps))) = Some e" by simp_all
      from pos obtain m where m: "n = Suc m" by (cases n) simp_all
      with at f1 show "0 < Suc n \<and>
        fst (rimraf env ((p # ps) ! (Suc n - 1))
               (foldl (\<lambda>f p. snd (rimraf env p f)) (fs w) (take (Suc n - 1) (p # ps)))) = Some e"
        by simp
    qed
    from n(1) have le: "Suc n \<le> length (p # ps)" by simp
    from n(2) t1 have tr: "trace w' = trace w @ map Rimraf (take (Suc n) (p # ps))" by simp
    from n(3) f1 have st: "fs w' = foldl (\<lambda>f p. snd (rimraf env p f)) (fs w) (take (Suc n) (p # ps))"
      by simp
    from n(4) have all: "r = None \<longrightarrow> Suc n = length (p # ps)" by simp
    show ?thesis
      by (rule exI[of _ "Suc n"], intro conjI, rule le, rule tr, rule st, rule all, rule failing)
  qed
qed

lemma rimrafAll_succeeds:
  "\<forall>p f. fst (rimraf env p f) = None \<Longrightarrow> fst (rimrafAll env ps w) = None"
proof (induction ps arbitrary: w)
  case Nil
  then show ?case by simp
next
  case (Cons p ps)
  obtain r1 w1 where rm: "do_rimraf env p w = (r1, w1)" by fastforce
  with Cons.prems do_rimraf_fs[OF rm] have "r1 = None" by simp
  with rm Cons show ?case by simp
qed

lemma rimrafAll_first_failure:
  "\<forall>i<length pre. fst (rimraf env (pre ! i)
                          (foldl (\<lambda>f p. snd (rimraf env p f)) (fs w) (take i pre))) = None \<Longrightarrow>
   rimraf env p (foldl (\<lambda>f p. snd (rimraf env p f)) (fs w) pre) = (r, f') \<Longrightarrow> r \<noteq> None \<Longrightarrow>
   rimrafAll env (pre @ p # post) w = (r, \<lparr>fs = f', trace = trace w @ map Rimraf (pre @ [p])\<rparr>)"
proof (induction pre arbitrary: w)
  case Nil
  then show ?case by (auto simp: do_rimraf_def emit_def)
next
  case (Cons q pre)
  obtain r1 w1 where rm: "do_rimraf env q w = (r1, w1)" by fastforce
  note f1 = do_rimraf_fs[OF rm] and t1 = do_rimraf_trace[OF rm]
  from Cons.prems(1) have "fst (rimraf env q (fs w)) = None" by fastforce
  with f1 have r1: "r1 = None" by simp
  have "\<forall>i<length pre. fst (rimraf env (pre ! i)
           (foldl (\<lambda>f p. snd (rimraf env p f)) (fs w1) (take i pre))) = None"
  proof (intro allI impI)
    fix i assume "i < length pre"
    then have "Suc i < length (q # pre)" by simp
    from Cons.prems(1)[rule_format, OF this] f1 show
      "fst (rimraf env (pre ! i) (foldl (\<lambda>f p. snd (rimraf env p f)) (fs w1) (take i pre))) = None"
      by simp
  qed
  moreover from Cons.prems(2) f1
  have "rimraf env p (foldl (\<lambda>f p. snd (rimraf env p f)) (fs w1) pre) = (r, f')" by simp
  ultimately have "rimrafAll env (pre @ p # post) w1 =
      (r, \<lparr>fs = f', trace = trace w1 @ map Rimraf (pre @ [p])\<rparr>)"
    using Cons.prems(3) by (rule Cons.IH)
  with rm r1 t1 show ?case by simp
qed

text \<open>
  Claim C1, as amended. \<^verbatim>\<open>removeContentsOfDir\<close> lists the module directory and goes
  through the entries in the order of the listing. It passes over an entry exactly when the
  name starts with a dot, is not \<^verbatim>\<open>.bin\<close>, is not \<^verbatim>\<open>.modules.yaml\<close>, and the entry's path
  is not the virtual store directory; the paths of the other entries are the ones it
  removes, with \<^verbatim>\<open>rimraf\<close>, one after the other and up to the first removal that fails:
  the file system it leaves is the one the removals of the first \<open>n\<close> of these paths make
  of the one it found, and nothing else is done to it. When the call completes, \<open>n\<close> is
  the number of these paths: every entry that is not passed over has been removed. When it
  fails, the error is that of the \<open>n\<close>-th removal, and the entries after it are left.
  The call completes when no removal fails. The directory itself, which is the path of
  none of its entries, is not among the paths removed.
\<close>

theorem removeContentsOfDir_skips_hidden_only:
  assumes listing: "fs_readdir env dir (fs w) = Inr items"
      and run: "removeContentsOfDir env dir virtualStoreDir w = (r, w')"
  shows "(let removed = map (path_join env dir)
            (filter (\<lambda>item. \<not> (startsWith item ''.'' \<and> item \<noteq> ''.bin'' \<and>
                                item \<noteq> ''.modules.yaml'' \<and>
                                \<not> dirsAreEqual env (path_join env dir item) virtualStoreDir)) items)
          in (\<exists>n\<le>length removed.
                trace w' = trace w @ Readdir dir # map Rimraf (take n removed) \<and>
                fs w' = foldl (\<lambda>f p. snd (rimraf env p f)) (fs w) (take n removed) \<and>
                (r = None \<longrightarrow> n = length removed) \<and>
                (\<forall>e. r = Some e \<longrightarrow>
                   0 < n \<and>
                   fst (rimraf env (removed ! (n - 1))
                          (foldl (\<lambda>f p. snd (rimraf env p f)) (fs w) (take (n - 1) removed))) = Some e)) \<and>
             ((\<forall>p f. fst (rimraf env p f) = None) \<longrightarrow> r = None) \<and>
             ((\<forall>item\<in>set items. path_join env dir item \<noteq> dir) \<longrightarrow> dir \<notin> set removed))"
proof -
  let ?removed = "map (path_join env dir)
            (filter (\<lambda>item. \<not> (startsWith item ''.'' \<and> item \<noteq> ''.bin'' \<and>
                                item \<noteq> ''.modules.yaml'' \<and>
                                \<not> dirsAreEqual env (path_join env dir item) virtualStoreDir)) items)"
  from listing run have loop: "rimrafAll env ?removed (emit (Readdir dir) w) = (r, w')"
    by (simp add: removeContentsOfDir_def do_readdir_def removeItems_rimrafAll)
  from rimrafAll_effect[OF loop]
  have effects: "\<exists>n\<le>length ?removed.
                trace w' = trace w @ Readdir dir # map Rimraf (take n ?removed) \<and>
                fs w' = foldl (\<lambda>f p. snd (rimraf env p f)) (fs w) (take n ?removed) \<and>
                (r = None \<longrightarrow> n = length ?removed) \<and>
                (\<forall>e. r = Some e \<longrightarrow>
                   0 < n \<and>
                   fst (rimraf env (?removed ! (n - 1))
                          (foldl (\<lambda>f p. snd (rimraf env p f)) (fs w) (take (n - 1) ?removed))) = Some e)"
    by (simp add: emit_def)
  have completes: "(\<forall>p f. fst (rimraf env p f) = None) \<longrightarrow> r = None"
  proof
    assume "\<forall>p f. fst (rimraf env p f) = None"
    from rimrafAll_succeeds[OF this, of ?removed "emit (Readdir dir) w"] loop
    show "r = None" by simp
  qed
  have not_dir: "(\<forall>item\<in>set items. path_join env dir item \<noteq> dir) \<longrightarrow> dir \<notin> set ?removed"
    by auto
  from effects completes not_dir show ?thesis
    unfolding Let_def by (intro conjI)
qed

lemma sample_purge_run:
  "removeContentsOfDir sample_sys ''/p/node_modules'' ''/p/node_modules/.pnpm'' \<lparr>fs = sample_fs, trace = []\<rparr>
     = (None, \<lparr>fs = [(''/p/node_modules'', [''.keep'']), (''/p/sub/node_modules'', [''lodash''])],
               trace = [Readdir ''/p/node_modules'', Rimraf ''/p/node_modules/.bin'',
                        Rimraf ''/p/node_modules/.modules.yaml'', Rimraf ''/p/node_modules/.pnpm'',
                        Rimraf ''/p/node_modules/lodash'']\<rparr>)"
  by code_simp

text \<open>
  The theorem on the sample directory, where no removal fails: \<^verbatim>\<open>.keep\<close> stays, the four
  others go, and the virtual store with them.
\<close>

theorem removeContentsOfDir_skips_hidden_only_witness:
  "fs_readdir sample_sys ''/p/node_modules'' sample_fs =
     Inr [''.bin'', ''.keep'', ''.modules.yaml'', ''.pnpm'', ''lodash''] \<and>
   fst (removeContentsOfDir sample_sys ''/p/node_modules'' ''/p/node_modules/.pnpm''
          \<lparr>fs = sample_fs, trace = []\<rparr>) = None \<and>
   trace (snd (removeContentsOfDir sample_sys ''/p/node_modules'' ''/p/node_modules/.pnpm''
          \<lparr>fs = sample_fs, trace = []\<rparr>)) =
     [Readdir ''/p/node_modules'', Rimraf ''/p/node_modules/.bin'',
      Rimraf ''/p/node_modules/.modules.yaml'', Rimraf ''/p/node_modules/.pnpm'',
      Rimraf ''/p/node_modules/lodash''] \<and>
   fs (snd (removeContentsOfDir sample_sys ''/p/node_modules'' ''/p/node_modules/.pnpm''
          \<lparr>fs = sample_fs, trace = []\<rparr>)) =
     [(''/p/node_modules'', [''.keep'']), (''/p/sub/node_modules'', [''lodash''])]"
proof -
  let ?w = "\<lparr>fs = sample_fs, trace = []\<rparr>"
  let ?run = "removeContentsOfDir sample_sys ''/p/node_modules'' ''/p/node_modules/.pnpm'' ?w"
  let ?removed = "[''/p/node_modules/.bin'', ''/p/node_modules/.modules.yaml'',
                   ''/p/node_modules/.pnpm'', ''/p/node_modules/lodash'']"
  have listing: "fs_readdir sample_sys ''/p/node_modules'' (fs ?w) =
     Inr [''.bin'', ''.keep'', ''.modules.yaml'', ''.pnpm'', ''lodash'']"
    by (simp add: sample_sys_def sample_readdir_def sample_fs_def)
  have run: "?run = (None, snd ?run)"
    by (simp add: sample_purge_run)
  have removed: "map (path_join sample_sys ''/p/node_modules'')
            (filter (\<lambda>item. \<not> (startsWith item ''.'' \<and> item \<noteq> ''.bin'' \<and>
                                item \<noteq> ''.modules.yaml'' \<and>
                                \<not> dirsAreEqual sample_sys (path_join sample_sys ''/p/node_modules'' item)
                                     ''/p/node_modules/.pnpm''))
               [''.bin'', ''.keep'', ''.modules.yaml'', ''.pnpm'', ''lodash'']) = ?removed"
    by (simp add: sample_sys_def sample_join_def sample_relative_def startsWith_def dirsAreEqual_def)
  from removeContentsOfDir_skips_hidden_only[OF listing run]
  obtain n where
    tr: "trace (snd ?run) = trace ?w @ Readdir ''/p/node_modules'' # map Rimraf (take n ?removed)" and
    st: "fs (snd ?run) = foldl (\<lambda>f p. snd (rimraf sample_sys p f)) (fs ?w) (take n ?removed)" and
    all: "n = length ?removed"
    unfolding Let_def removed by blast
  from tr all have "trace (snd ?run) =
     [Readdir ''/p/node_modules'', Rimraf ''/p/node_modules/.bin'',
      Rimraf ''/p/node_modules/.modules.yaml'', Rimraf ''/p/node_modules/.pnpm'',
      Rimraf ''/p/node_modules/lodash'']" by simp
  moreover have "foldl (\<lambda>f p. snd (rimraf sample_sys p f)) sample_fs ?removed =
     [(''/p/node_modules'', [''.keep'']), (''/p/sub/node_modules'', [''lodash''])]"
    by code_simp
  with st all have "fs (snd ?run) =
     [(''/p/node_modules'', [''.keep'']), (''/p/sub/node_modules'', [''lodash''])]"
    by simp
  moreover have "fst ?run = None" by (simp add: sample_purge_run)
  moreover from listing have "fs_readdir sample_sys ''/p/node_modules'' sample_fs =
     Inr [''.bin'', ''.keep'', ''.modules.yaml'', ''.pnpm'', ''lodash'']" by simp
  ultimately show ?thesis by (intro conjI)
qed

text \<open>
  Claim C1 as it was stated fails where a removal fails: the loop ends there. When
  \<^verbatim>\<open>rimraf\<close> of \<^verbatim>\<open>.modules.yaml\<close> fails with \<^verbatim>\<open>EPERM\<close>, the call fails with that error after
  the removal of \<^verbatim>\<open>.bin\<close>, and \<^verbatim>\<open>.pnpm\<close>, which is the virtual store, and \<^verbatim>\<open>lodash\<close>,
  whose name has no dot, are neither passed over nor removed.
\<close>

theorem removeContentsOfDir_failing_removal_counterexample:
  "\<not> startsWith ''lodash'' ''.'' \<and>
   dirsAreEqual sample_sys (path_join sample_sys ''/p/node_modules'' ''.pnpm'') ''/p/node_modules/.pnpm'' \<and>
   removeContentsOfDir
      (sample_sys\<lparr>rimraf := \<lambda>p f. if p = ''/p/node_modules/.modules.yaml''
                                   then (Some (SystemError ''EPERM''), f) else sample_rimraf p f\<rparr>)
      ''/p/node_modules'' ''/p/node_modules/.pnpm'' \<lparr>fs = sample_fs, trace = []\<rparr>
     = (Some (SystemError ''EPERM''),
        \<lparr>fs = [(''/p/node_modules'', [''.keep'', ''.modules.yaml'', ''.pnpm'', ''lodash'']),
               (''/p/node_modules/.pnpm'', [''lodash@4'']),
               (''/p/sub/node_modules'', [''lodash''])],
         trace = [Readdir ''/p/node_modules'', Rimraf ''/p/node_modules/.bin'',
                  Rimraf ''/p/node_modules/.modules.yaml'']\<rparr>)"
  by (simp add: removeContentsOfDir_def do_readdir_def do_rimraf_def emit_def startsWith_def
        dirsAreEqual_def sample_sys_def sample_join_def sample_relative_def sample_readdir_def
        sample_rimraf_def sample_fs_def)

section \<open>The effects of the validator\<close>

text \<open>
  \<^verbatim>\<open>x || undefined\<close> changes no value of the type \<^verbatim>\<open>string[] | undefined\<close>. A purge logs
  its line, lists the directory and removes entries, and \<^verbatim>\<open>validateModules\<close> has no
  other effect than the purges it makes.
\<close>

lemma or_undefined_id: "or_undefined x = x"
  by (cases x) (simp_all add: or_undefined_def)

lemma singleton_map_eq: "([k \<mapsto> a] = [k \<mapsto> b]) = (a = b)"
  by (auto dest: map_upd_eqD1)

lemma list_all_take: "list_all P xs \<Longrightarrow> list_all P (take n xs)"
  by (auto simp: list_all_iff dest: in_set_takeD)

lemma rimrafs_are_purge_events: "list_all isPurgeEvent (map (\<lambda>x. Rimraf (f x)) xs)"
  by (simp add: list_all_iff)

lemma removeContentsOfDir_trace:
  assumes "removeContentsOfDir env dir vsd w = (r, w')"
  shows "\<exists>evs. trace w' = trace w @ Readdir dir # evs \<and> list_all isPurgeEvent evs"
proof (cases "fs_readdir env dir (fs w)")
  case (Inl e)
  with assms have "trace w' = trace w @ [Readdir dir]"
    by (auto simp: removeContentsOfDir_def do_readdir_def emit_def)
  then show ?thesis by simp
next
  case (Inr items)
  with assms have "removeItems env dir vsd items (emit (Readdir dir) w) = (r, w')"
    by (simp add: removeContentsOfDir_def do_readdir_def)
  from removeItems_any_trace[OF this] obtain n where
    "trace w' = trace (emit (Readdir dir) w) @ take n (map (\<lambda>item. Rimraf (path_join env dir item))
       (filter (\<lambda>item. \<not> (startsWith item ''.'' \<and> item \<noteq> ''.bin'' \<and> item \<noteq> ''.modules.yaml'' \<and>
          \<not> dirsAreEqual env (path_join env dir item) vsd)) items))" (is "_ = _ @ take n ?R")
    by blast
  then have "trace w' = trace w @ Readdir dir # take n ?R" by (simp add: emit_def)
  moreover have "list_all isPurgeEvent (take n ?R)"
    by (rule list_all_take) (rule rimrafs_are_purge_events)
  ultimately show ?thesis by blast
qed

lemma purge_trace:
  assumes "purgeModulesDirsOfImporter env vsd imp w = (r, w')"
  shows "\<exists>evs. trace w' = trace w @ LoggerInfo (''Recreating '' @ modulesDir imp) (rootDir imp) #
                     Readdir (modulesDir imp) # evs \<and> list_all isPurgeEvent evs"
proof -
  obtain r0 w0 where rc: "removeContentsOfDir env (modulesDir imp) vsd
      (emit (LoggerInfo (''Recreating '' @ modulesDir imp) (rootDir imp)) w) = (r0, w0)"
    by fastforce
  with assms have "w' = w0"
    by (auto simp: purgeModulesDirsOfImporter_def split: option.splits if_splits)
  with removeContentsOfDir_trace[OF rc] show ?thesis by (simp add: emit_def)
qed

lemma purge_trace_weak:
  assumes "purgeModulesDirsOfImporter env vsd imp w = (r, w')"
  shows "\<exists>evs. trace w' = trace w @ evs \<and> list_all isPurgeEvent evs \<and> Readdir (modulesDir imp) \<in> set evs"
proof -
  from purge_trace[OF assms] obtain evs where
    "trace w' = trace w @ LoggerInfo (''Recreating '' @ modulesDir imp) (rootDir imp) #
                     Readdir (modulesDir imp) # evs" "list_all isPurgeEvent evs" by blast
  then show ?thesis
    by (intro exI[of _ "LoggerInfo (''Recreating '' @ modulesDir imp) (rootDir imp) #
                     Readdir (modulesDir imp) # evs"]) simp
qed

lemma purgeAll_trace:
  "purgeAll env vsd ps w = (r, w') \<Longrightarrow>
   \<exists>evs. trace w' = trace w @ evs \<and> list_all isPurgeEvent evs \<and>
         (r = None \<longrightarrow> (\<forall>p\<in>set ps. Readdir (modulesDir p) \<in> set evs))"
proof (induction ps arbitrary: w)
  case Nil
  then show ?case by simp
next
  case (Cons p ps)
  obtain r1 w1 where p1: "purgeModulesDirsOfImporter env vsd p w = (r1, w1)" by fastforce
  from purge_trace_weak[OF p1] obtain evs1 where
    e1: "trace w1 = trace w @ evs1" "list_all isPurgeEvent evs1" "Readdir (modulesDir p) \<in> set evs1"
    by blast
  show ?case
  proof (cases r1)
    case (Some e)
    with Cons.prems p1 have "r = Some e" "w' = w1" by simp_all
    with e1 show ?thesis by auto
  next
    case None
    with Cons.prems p1 have rest: "purgeAll env vsd ps w1 = (r, w')" by simp
    from Cons.IH[OF rest] obtain evs2 where
      e2: "trace w' = trace w1 @ evs2" "list_all isPurgeEvent evs2"
          "r = None \<longrightarrow> (\<forall>p\<in>set ps. Readdir (modulesDir p) \<in> set evs2)" by blast
    with e1 show ?thesis
      by (intro exI[of _ "evs1 @ evs2"]) auto
  qed
qed

lemma validateProjects_trace:
  "validateProjects env modules opts purged ps w = (r, w') \<Longrightarrow>
   \<exists>evs. trace w' = trace w @ evs \<and> list_all isPurgeEvent evs"
proof (induction ps arbitrary: w purged)
  case Nil
  then show ?case by simp
next
  case (Cons p ps)
  show ?case
  proof (cases "checkProject env modules opts p")
    case None
    with Cons.prems have "validateProjects env modules opts purged ps w = (r, w')" by simp
    from Cons.IH[OF this] show ?thesis .
  next
    case (Some err)
    show ?thesis
    proof (cases "v_forceNewModules opts")
      case False
      with Some Cons.prems have "w' = w" by simp
      then show ?thesis by simp
    next
      case True
      obtain r1 w1 where p1: "purgeModulesDirsOfImporter env (v_virtualStoreDir opts) p w = (r1, w1)"
        by fastforce
      from purge_trace_weak[OF p1] obtain evs1 where
        e1: "trace w1 = trace w @ evs1" "list_all isPurgeEvent evs1" by blast
      show ?thesis
      proof (cases r1)
        case (Some e)
        with \<open>checkProject env modules opts p = Some err\<close> True Cons.prems p1 have "w' = w1" by simp
        with e1 show ?thesis by auto
      next
        case None
        with \<open>checkProject env modules opts p = Some err\<close> True Cons.prems p1
        have "validateProjects env modules opts True ps w1 = (r, w')" by simp
        from Cons.IH[OF this] obtain evs2 where
          "trace w' = trace w1 @ evs2" "list_all isPurgeEvent evs2" by blast
        with e1 show ?thesis by (intro exI[of _ "evs1 @ evs2"]) auto
      qed
    qed
  qed
qed

lemma validateProjects_all_pass:
  "\<forall>p\<in>set ps. checkProject env modules opts p = None \<Longrightarrow>
   validateProjects env modules opts purged ps w = (Inr purged, w)"
  by (induction ps) simp_all

lemma hoistPatternCheck_trace:
  assumes "hoistPatternCheck env rootProject opts w = (r, w')"
  shows "\<exists>evs. trace w' = trace w @ evs \<and> list_all isPurgeEvent evs"
proof (cases "\<exists>rp. rootProject = Some rp \<and> v_forceHoistPattern opts \<and>
                v_currentHoistPattern opts \<noteq> v_hoistPattern opts \<and> v_forceNewModules opts")
  case True
  then obtain rp where rp: "rootProject = Some rp" by blast
  obtain r1 w1 where p1: "purgeModulesDirsOfImporter env (v_virtualStoreDir opts) rp w = (r1, w1)"
    by fastforce
  with True rp assms have "w' = w1"
    by (auto simp: hoistPatternCheck_def or_undefined_id split: option.splits)
  with purge_trace_weak[OF p1] show ?thesis by blast
next
  case False
  with assms have "w' = w"
    by (auto simp: hoistPatternCheck_def or_undefined_id split: option.splits if_splits)
  then show ?thesis by simp
qed



lemma find_Some_in_set: "find P xs = Some x \<Longrightarrow> x \<in> set xs \<and> P x"
  by (induction xs) (auto split: if_splits)

text \<open>The definitions that an evaluation on the sample environment unfolds.\<close>

lemmas sample_defs = sample_sys_def sample_fs_def sample_readdir_def sample_rimraf_def sample_join_def
  sample_relative_def sample_modules_def sample_opts_def sample_root_def sample_sub_def

lemmas run_defs = validateModules_def hoistPatternCheck_def registriesCheck_def checkProject_def
  purgeModulesDirsOfImporter_def removeContentsOfDir_def do_readdir_def do_rimraf_def emit_def
  startsWith_def dirsAreEqual_def or_undefined_def

lemmas context_defs = getContext_def validateAndReread_def assembleContext_def do_readProjectsContext_def
  do_mkdir_def do_readLockfiles_def getExtraNodePaths_def assembleSingleContext_def
  sample_context_sys_def sample_single_sys_def sample_context_opts_def sample_single_opts_def
  sample_pathAbsolute_def sample_mkdir_def sample_importersContext_def sample_id_def
  sample_readProjectsContext_def sample_readProjectContext_def

section \<open>The purge engine: a missing directory\<close>

text \<open>
  Claim C7. Purging a module directory that does not exist succeeds: when listing the
  directory fails with \<^verbatim>\<open>ENOENT\<close>, \<^verbatim>\<open>purgeModulesDirsOfImporter\<close> returns without an
  error, having logged its line and tried the listing, and the file system is as before.
  Every other error raised during the purge is thrown on to the caller: an error of the
  listing with another code, with the file system as before; and the error of the first
  removal that fails, when its code is not \<^verbatim>\<open>ENOENT\<close>, with the file system as that
  removal left it after the removals before it, which are those of the entries that come
  before it in the listing and are not passed over. No error with the code \<^verbatim>\<open>ENOENT\<close>
  comes out of a purge.
\<close>

theorem purge_tolerates_missing_directory:
  "(fs_readdir env (modulesDir imp) (fs w) = Inl e \<and> code e = Some ''ENOENT'' \<longrightarrow>
      purgeModulesDirsOfImporter env virtualStoreDir imp w =
        (None, w\<lparr>trace := trace w @ [LoggerInfo (''Recreating '' @ modulesDir imp) (rootDir imp),
                                     Readdir (modulesDir imp)]\<rparr>)) \<and>
   (fs_readdir env (modulesDir imp) (fs w) = Inl e \<and> code e \<noteq> Some ''ENOENT'' \<longrightarrow>
      purgeModulesDirsOfImporter env virtualStoreDir imp w =
        (Some e, w\<lparr>trace := trace w @ [LoggerInfo (''Recreating '' @ modulesDir imp) (rootDir imp),
                                       Readdir (modulesDir imp)]\<rparr>)) \<and>
   (fs_readdir env (modulesDir imp) (fs w) = Inr items \<and>
    map (path_join env (modulesDir imp))
      (filter (\<lambda>item. \<not> (startsWith item ''.'' \<and> item \<noteq> ''.bin'' \<and> item \<noteq> ''.modules.yaml'' \<and>
                          \<not> dirsAreEqual env (path_join env (modulesDir imp) item) virtualStoreDir))
         items) = pre @ p # post \<and>
    (\<forall>i<length pre. fst (rimraf env (pre ! i)
                            (foldl (\<lambda>f q. snd (rimraf env q f)) (fs w) (take i pre))) = None) \<and>
    rimraf env p (foldl (\<lambda>f q. snd (rimraf env q f)) (fs w) pre) = (Some e', f') \<and>
    code e' \<noteq> Some ''ENOENT'' \<longrightarrow>
      purgeModulesDirsOfImporter env virtualStoreDir imp w =
        (Some e', \<lparr>fs = f',
                   trace = trace w @ LoggerInfo (''Recreating '' @ modulesDir imp) (rootDir imp) #
                             Readdir (modulesDir imp) # map Rimraf (pre @ [p])\<rparr>)) \<and>
   (fst (purgeModulesDirsOfImporter env virtualStoreDir imp w) = Some e'' \<longrightarrow>
      code e'' \<noteq> Some ''ENOENT'')"
proof (intro conjI impI)
  assume "fs_readdir env (modulesDir imp) (fs w) = Inl e \<and> code e = Some ''ENOENT''"
  then show "purgeModulesDirsOfImporter env virtualStoreDir imp w =
        (None, w\<lparr>trace := trace w @ [LoggerInfo (''Recreating '' @ modulesDir imp) (rootDir imp),
                                     Readdir (modulesDir imp)]\<rparr>)"
    by (simp add: purgeModulesDirsOfImporter_def removeContentsOfDir_def do_readdir_def emit_def)
next
  assume "fs_readdir env (modulesDir imp) (fs w) = Inl e \<and> code e \<noteq> Some ''ENOENT''"
  then show "purgeModulesDirsOfImporter env virtualStoreDir imp w =
        (Some e, w\<lparr>trace := trace w @ [LoggerInfo (''Recreating '' @ modulesDir imp) (rootDir imp),
                                       Readdir (modulesDir imp)]\<rparr>)"
    by (simp add: purgeModulesDirsOfImporter_def removeContentsOfDir_def do_readdir_def emit_def)
next
  let ?w1 = "emit (Readdir (modulesDir imp))
               (emit (LoggerInfo (''Recreating '' @ modulesDir imp) (rootDir imp)) w)"
  assume a: "fs_readdir env (modulesDir imp) (fs w) = Inr items \<and>
    map (path_join env (modulesDir imp))
      (filter (\<lambda>item. \<not> (startsWith item ''.'' \<and> item \<noteq> ''.bin'' \<and> item \<noteq> ''.modules.yaml'' \<and>
                          \<not> dirsAreEqual env (path_join env (modulesDir imp) item) virtualStoreDir))
         items) = pre @ p # post \<and>
    (\<forall>i<length pre. fst (rimraf env (pre ! i)
                            (foldl (\<lambda>f q. snd (rimraf env q f)) (fs w) (take i pre))) = None) \<and>
    rimraf env p (foldl (\<lambda>f q. snd (rimraf env q f)) (fs w) pre) = (Some e', f') \<and>
    code e' \<noteq> Some ''ENOENT''"
  then have before: "\<forall>i<length pre. fst (rimraf env (pre ! i)
                            (foldl (\<lambda>f q. snd (rimraf env q f)) (fs ?w1) (take i pre))) = None"
    and failing: "rimraf env p (foldl (\<lambda>f q. snd (rimraf env q f)) (fs ?w1) pre) = (Some e', f')"
    by (simp_all add: emit_def)
  have "Some e' \<noteq> None" by simp
  with before failing have "rimrafAll env (pre @ p # post) ?w1 =
      (Some e', \<lparr>fs = f', trace = trace ?w1 @ map Rimraf (pre @ [p])\<rparr>)"
    by (rule rimrafAll_first_failure)
  with a have "removeContentsOfDir env (modulesDir imp) virtualStoreDir
                 (emit (LoggerInfo (''Recreating '' @ modulesDir imp) (rootDir imp)) w) =
      (Some e', \<lparr>fs = f', trace = trace ?w1 @ map Rimraf (pre @ [p])\<rparr>)"
    by (simp add: removeContentsOfDir_def do_readdir_def removeItems_rimrafAll emit_def)
  with a show "purgeModulesDirsOfImporter env virtualStoreDir imp w =
        (Some e', \<lparr>fs = f',
                   trace = trace w @ LoggerInfo (''Recreating '' @ modulesDir imp) (rootDir imp) #
                             Readdir (modulesDir imp) # map Rimraf (pre @ [p])\<rparr>)"
    by (simp add: purgeModulesDirsOfImporter_def emit_def)
next
  assume "fst (purgeModulesDirsOfImporter env virtualStoreDir imp w) = Some e''"
  then show "code e'' \<noteq> Some ''ENOENT''"
    by (auto simp: purgeModulesDirsOfImporter_def split: prod.splits option.splits if_splits)
qed

text \<open>
  On the sample file system \<^verbatim>\<open>/q/node_modules\<close> does not exist, and purging it is a
  success that changes nothing; when listing answers \<^verbatim>\<open>EACCES\<close>, the purge fails with
  that error; and when the removal of \<^verbatim>\<open>.modules.yaml\<close> fails with \<^verbatim>\<open>EPERM\<close>, the purge
  fails with that error after the removal of \<^verbatim>\<open>.bin\<close>.
\<close>

theorem purge_tolerates_missing_directory_witness:
  "purgeModulesDirsOfImporter sample_sys ''/p/node_modules/.pnpm''
       \<lparr>modulesDir = ''/q/node_modules'', rootDir = ''/q''\<rparr> \<lparr>fs = sample_fs, trace = []\<rparr> =
     (None, \<lparr>fs = sample_fs,
             trace = [LoggerInfo ''Recreating /q/node_modules'' ''/q'', Readdir ''/q/node_modules'']\<rparr>) \<and>
   purgeModulesDirsOfImporter (sample_sys\<lparr>fs_readdir := \<lambda>d f. Inl (SystemError ''EACCES'')\<rparr>)
       ''/p/node_modules/.pnpm''
       \<lparr>modulesDir = ''/p/node_modules'', rootDir = ''/p''\<rparr> \<lparr>fs = sample_fs, trace = []\<rparr> =
     (Some (SystemError ''EACCES''),
      \<lparr>fs = sample_fs,
       trace = [LoggerInfo ''Recreating /p/node_modules'' ''/p'', Readdir ''/p/node_modules'']\<rparr>) \<and>
   purgeModulesDirsOfImporter
       (sample_sys\<lparr>rimraf := \<lambda>p f. if p = ''/p/node_modules/.modules.yaml''
                                    then (Some (SystemError ''EPERM''), f) else sample_rimraf p f\<rparr>)
       ''/p/node_modules/.pnpm''
       \<lparr>modulesDir = ''/p/node_modules'', rootDir = ''/p''\<rparr> \<lparr>fs = sample_fs, trace = []\<rparr> =
     (Some (SystemError ''EPERM''),
      \<lparr>fs = [(''/p/node_modules'', [''.keep'', ''.modules.yaml'', ''.pnpm'', ''lodash'']),
             (''/p/node_modules/.pnpm'', [''lodash@4'']),
             (''/p/sub/node_modules'', [''lodash''])],
       trace = [LoggerInfo ''Recreating /p/node_modules'' ''/p'', Readdir ''/p/node_modules'',
                Rimraf ''/p/node_modules/.bin'', Rimraf ''/p/node_modules/.modules.yaml'']\<rparr>)"
proof -
  let ?w = "\<lparr>fs = sample_fs, trace = []\<rparr>"
  let ?q = "\<lparr>modulesDir = ''/q/node_modules'', rootDir = ''/q''\<rparr>"
  let ?p = "\<lparr>modulesDir = ''/p/node_modules'', rootDir = ''/p''\<rparr>"
  let ?denied = "sample_sys\<lparr>fs_readdir := \<lambda>d f. Inl (SystemError ''EACCES'')\<rparr>"
  let ?locked = "sample_sys\<lparr>rimraf := \<lambda>p f. if p = ''/p/node_modules/.modules.yaml''
                                    then (Some (SystemError ''EPERM''), f) else sample_rimraf p f\<rparr>"
  let ?left = "[(''/p/node_modules'', [''.keep'', ''.modules.yaml'', ''.pnpm'', ''lodash'']),
             (''/p/node_modules/.pnpm'', [''lodash@4'']),
             (''/p/sub/node_modules'', [''lodash''])]"
  have missing: "fs_readdir sample_sys (modulesDir ?q) (fs ?w) = Inl (SystemError ''ENOENT'') \<and>
                 code (SystemError ''ENOENT'') = Some ''ENOENT''"
    by (simp add: sample_sys_def sample_readdir_def sample_fs_def)
  have denied: "fs_readdir ?denied (modulesDir ?p) (fs ?w) = Inl (SystemError ''EACCES'') \<and>
                code (SystemError ''EACCES'') \<noteq> Some ''ENOENT''"
    by simp
  have locked: "fs_readdir ?locked (modulesDir ?p) (fs ?w) =
       Inr [''.bin'', ''.keep'', ''.modules.yaml'', ''.pnpm'', ''lodash''] \<and>
    map (path_join ?locked (modulesDir ?p))
      (filter (\<lambda>item. \<not> (startsWith item ''.'' \<and> item \<noteq> ''.bin'' \<and> item \<noteq> ''.modules.yaml'' \<and>
                          \<not> dirsAreEqual ?locked (path_join ?locked (modulesDir ?p) item)
                               ''/p/node_modules/.pnpm''))
         [''.bin'', ''.keep'', ''.modules.yaml'', ''.pnpm'', ''lodash'']) =
      [''/p/node_modules/.bin''] @ ''/p/node_modules/.modules.yaml'' #
      [''/p/node_modules/.pnpm'', ''/p/node_modules/lodash''] \<and>
    (\<forall>i<length [''/p/node_modules/.bin''].
        fst (rimraf ?locked ([''/p/node_modules/.bin''] ! i)
               (foldl (\<lambda>f q. snd (rimraf ?locked q f)) (fs ?w) (take i [''/p/node_modules/.bin'']))) = None) \<and>
    rimraf ?locked ''/p/node_modules/.modules.yaml''
       (foldl (\<lambda>f q. snd (rimraf ?locked q f)) (fs ?w) [''/p/node_modules/.bin'']) =
      (Some (SystemError ''EPERM''), ?left) \<and>
    code (SystemError ''EPERM'') \<noteq> Some ''ENOENT''"
    by (simp add: sample_sys_def sample_readdir_def sample_fs_def sample_join_def sample_relative_def
          sample_rimraf_def startsWith_def dirsAreEqual_def)
  from missing
    purge_tolerates_missing_directory
      [where env = sample_sys and imp = ?q and w = ?w and e = "SystemError ''ENOENT''"
         and virtualStoreDir = "''/p/node_modules/.pnpm''"]
  have a: "purgeModulesDirsOfImporter sample_sys ''/p/node_modules/.pnpm'' ?q ?w =
     (None, \<lparr>fs = sample_fs,
             trace = [LoggerInfo ''Recreating /q/node_modules'' ''/q'', Readdir ''/q/node_modules'']\<rparr>)"
    by simp
  from denied
    purge_tolerates_missing_directory
      [where env = ?denied and imp = ?p and w = ?w and e = "SystemError ''EACCES''"
         and virtualStoreDir = "''/p/node_modules/.pnpm''"]
  have b: "purgeModulesDirsOfImporter ?denied ''/p/node_modules/.pnpm'' ?p ?w =
     (Some (SystemError ''EACCES''),
      \<lparr>fs = sample_fs,
       trace = [LoggerInfo ''Recreating /p/node_modules'' ''/p'', Readdir ''/p/node_modules'']\<rparr>)"
    by simp
  note purge_tolerates_missing_directory
      [where env = ?locked and imp = ?p and w = ?w and e' = "SystemError ''EPERM''"
         and virtualStoreDir = "''/p/node_modules/.pnpm''"
         and items = "[''.bin'', ''.keep'', ''.modules.yaml'', ''.pnpm'', ''lodash'']"
         and pre = "[''/p/node_modules/.bin'']" and p = "''/p/node_modules/.modules.yaml''"
         and post = "[''/p/node_modules/.pnpm'', ''/p/node_modules/lodash'']" and f' = ?left,
       THEN conjunct2, THEN conjunct2, THEN conjunct1]
  from this locked have "purgeModulesDirsOfImporter ?locked ''/p/node_modules/.pnpm'' ?p ?w =
        (Some (SystemError ''EPERM''),
         \<lparr>fs = ?left,
          trace = trace ?w @ LoggerInfo (''Recreating '' @ modulesDir ?p) (rootDir ?p) #
                    Readdir (modulesDir ?p) #
                    map Rimraf ([''/p/node_modules/.bin''] @ [''/p/node_modules/.modules.yaml''])\<rparr>)"
    by (rule mp)
  then have c: "purgeModulesDirsOfImporter ?locked ''/p/node_modules/.pnpm'' ?p ?w =
     (Some (SystemError ''EPERM''),
      \<lparr>fs = ?left,
       trace = [LoggerInfo ''Recreating /p/node_modules'' ''/p'', Readdir ''/p/node_modules'',
                Rimraf ''/p/node_modules/.bin'', Rimraf ''/p/node_modules/.modules.yaml'']\<rparr>)"
    by simp
  from a b c show ?thesis by (intro conjI)
qed

section \<open>The path resolver: the node paths\<close>

text \<open>
  Claim C9. \<^verbatim>\<open>getExtraNodePaths\<close> returns the one path \<^verbatim>\<open>virtualStoreDir/node_modules\<close>
  if and only if \<^verbatim>\<open>extendNodePath\<close> is true or absent, the node linker is \<^verbatim>\<open>isolated\<close>
  and the hoist pattern has an element; in every other case it returns the empty list.
\<close>

theorem getExtraNodePaths_one_path_iff:
  "getExtraNodePaths env extendNodePath hoistPattern linker virtualStoreDir =
     (if extendNodePath \<noteq> Some False \<and> linker = isolated \<and>
         (\<exists>xs. hoistPattern = Some xs \<and> xs \<noteq> [])
      then [path_join env virtualStoreDir ''node_modules'']
      else [])"
  by (cases hoistPattern; cases extendNodePath) (auto simp: getExtraNodePaths_def)

text \<open>With the flag absent the path is there; with an empty pattern, or another linker, it is not.\<close>

theorem getExtraNodePaths_one_path_iff_witness:
  "getExtraNodePaths sample_sys None (Some [''*'']) isolated ''/p/node_modules/.pnpm'' =
     [''/p/node_modules/.pnpm/node_modules''] \<and>
   getExtraNodePaths sample_sys (Some True) (Some []) isolated ''/p/node_modules/.pnpm'' = [] \<and>
   getExtraNodePaths sample_sys (Some True) (Some [''*'']) hoisted ''/p/node_modules/.pnpm'' = []"
  using getExtraNodePaths_one_path_iff [of sample_sys None "Some [''*'']" isolated "''/p/node_modules/.pnpm''"]
        getExtraNodePaths_one_path_iff [of sample_sys "Some True" "Some []" isolated "''/p/node_modules/.pnpm''"]
        getExtraNodePaths_one_path_iff [of sample_sys "Some True" "Some [''*'']" hoisted "''/p/node_modules/.pnpm''"]
  by (simp add: sample_sys_def sample_join_def)

section \<open>The validator: the hoist pattern\<close>

text \<open>
  Claim C2, as amended. When \<^verbatim>\<open>forceHoistPattern\<close> is set, the projects include a root
  project (id \<^verbatim>\<open>.\<close>), the check of the public hoist pattern does not end the call, the
  recorded current hoist pattern differs from the requested one and \<^verbatim>\<open>forceNewModules\<close> is
  not set, \<^verbatim>\<open>validateModules\<close> fails with \<^verbatim>\<open>HOIST_PATTERN_DIFF\<close> and leaves the world as it
  was: no effect at all, so no mutation of the file system.
\<close>

theorem hoist_pattern_diff_without_force:
  assumes forceHoist: "v_forceHoistPattern opts"
      and root: "\<exists>p\<in>set projects. id' p = ''.''"
      and public_ok: "\<not> (v_forcePublicHoistPattern opts \<and>
                         m_publicHoistPattern modules \<noteq> v_publicHoistPattern opts)"
      and differ: "v_currentHoistPattern opts \<noteq> v_hoistPattern opts"
      and no_force: "\<not> v_forceNewModules opts"
  shows "validateModules env modules projects opts w = (Inl (PnpmError ''HOIST_PATTERN_DIFF''), w)"
proof -
  from root obtain rp where rp: "find (\<lambda>p. id' p = ''.'') projects = Some rp"
    by (cases "find (\<lambda>p. id' p = ''.'') projects") (auto simp: find_None_iff)
  from forceHoist differ no_force
  have "hoistPatternCheck env (Some rp) opts w = (Inl (PnpmError ''HOIST_PATTERN_DIFF''), w)"
    by (simp add: hoistPatternCheck_def or_undefined_id)
  with rp public_ok show ?thesis
    by (auto simp: validateModules_def or_undefined_id)
qed

text \<open>The sample descriptor records \<^verbatim>\<open>['*']\<close>; \<^verbatim>\<open>['lodash']\<close> is requested, and the check is forced.\<close>

theorem hoist_pattern_diff_without_force_witness:
  "validateModules sample_sys sample_modules [sample_root]
      (sample_opts\<lparr>v_hoistPattern := Some [''lodash''], v_forceHoistPattern := True\<rparr>)
      \<lparr>fs = sample_fs, trace = []\<rparr> =
     (Inl (PnpmError ''HOIST_PATTERN_DIFF''), \<lparr>fs = sample_fs, trace = []\<rparr>)"
  by (rule hoist_pattern_diff_without_force) (simp_all add: sample_opts_def sample_root_def sample_modules_def)

text \<open>
  Claim C2 as it was stated fails. The recorded pattern is \<^verbatim>\<open>['*']\<close>, the requested one
  \<^verbatim>\<open>['lodash']\<close>, and \<^verbatim>\<open>forceNewModules\<close> is not set, in all three runs. Without
  \<^verbatim>\<open>forceHoistPattern\<close> the two patterns are not compared, and \<^verbatim>\<open>validateModules\<close>
  returns \<^verbatim>\<open>{ purged: false }\<close>; with it but without a root project in the list, the same;
  and with it and a root project, a forced public hoist pattern that differs comes first,
  and the error is \<^verbatim>\<open>PUBLIC_HOIST_PATTERN_DIFF\<close>.
\<close>

theorem hoist_pattern_diff_unchecked_counterexample:
  "v_currentHoistPattern (sample_opts\<lparr>v_hoistPattern := Some [''lodash'']\<rparr>) \<noteq>
     v_hoistPattern (sample_opts\<lparr>v_hoistPattern := Some [''lodash'']\<rparr>) \<and>
   \<not> v_forceNewModules (sample_opts\<lparr>v_hoistPattern := Some [''lodash'']\<rparr>) \<and>
   validateModules sample_sys sample_modules [sample_root]
      (sample_opts\<lparr>v_hoistPattern := Some [''lodash'']\<rparr>) \<lparr>fs = sample_fs, trace = []\<rparr> =
     (Inr False, \<lparr>fs = sample_fs, trace = []\<rparr>) \<and>
   validateModules sample_sys sample_modules [sample_sub]
      (sample_opts\<lparr>v_hoistPattern := Some [''lodash''], v_forceHoistPattern := True\<rparr>)
      \<lparr>fs = sample_fs, trace = []\<rparr> =
     (Inr False, \<lparr>fs = sample_fs, trace = []\<rparr>) \<and>
   validateModules sample_sys sample_modules [sample_root]
      (sample_opts\<lparr>v_hoistPattern := Some [''lodash''], v_forceHoistPattern := True,
                    v_publicHoistPattern := Some [''*''], v_forcePublicHoistPattern := True\<rparr>)
      \<lparr>fs = sample_fs, trace = []\<rparr> =
     (Inl (PnpmError ''PUBLIC_HOIST_PATTERN_DIFF''), \<lparr>fs = sample_fs, trace = []\<rparr>)"
  by (simp add: run_defs sample_defs)

section \<open>The validator: an empty requested pattern\<close>

text \<open>
  Claim C10, as amended. \<^verbatim>\<open>validateModules\<close> compares the requested hoist pattern and the
  requested public hoist pattern with the recorded value as they are given: \<^verbatim>\<open>x || undefined\<close>
  is \<^verbatim>\<open>x\<close> for every array, the empty one too, and only an absent value stays absent. So
  an empty requested pattern against an absent recorded one is a mismatch wherever the
  comparison is made. For the public hoist pattern it is made when
  \<^verbatim>\<open>forcePublicHoistPattern\<close> is set: without \<^verbatim>\<open>forceNewModules\<close> the call then fails with
  \<^verbatim>\<open>PUBLIC_HOIST_PATTERN_DIFF\<close> and changes nothing. For the hoist pattern it is made when
  \<^verbatim>\<open>forceHoistPattern\<close> is set, the projects include a root project (id \<^verbatim>\<open>.\<close>) and the
  public hoist pattern check does not end the call (\<^verbatim>\<open>forcePublicHoistPattern\<close> not set, or
  the recorded and the requested public pattern equal): without \<^verbatim>\<open>forceNewModules\<close> the
  call then fails with \<^verbatim>\<open>HOIST_PATTERN_DIFF\<close> and changes nothing.
\<close>

theorem requested_pattern_compared_as_given:
  "or_undefined requested = requested \<and>
   (v_forceHoistPattern opts \<and> (\<exists>p\<in>set projects. id' p = ''.'') \<and>
    \<not> (v_forcePublicHoistPattern opts \<and> m_publicHoistPattern modules \<noteq> v_publicHoistPattern opts) \<and>
    \<not> v_forceNewModules opts \<and>
    v_hoistPattern opts = Some [] \<and> v_currentHoistPattern opts = None \<longrightarrow>
      validateModules env modules projects opts w = (Inl (PnpmError ''HOIST_PATTERN_DIFF''), w)) \<and>
   (v_forcePublicHoistPattern opts \<and> \<not> v_forceNewModules opts \<and>
    v_publicHoistPattern opts = Some [] \<and> m_publicHoistPattern modules = None \<longrightarrow>
      validateModules env modules projects opts w = (Inl (PnpmError ''PUBLIC_HOIST_PATTERN_DIFF''), w))"
proof (intro conjI impI)
  show "or_undefined requested = requested" by (rule or_undefined_id)
next
  assume a: "v_forceHoistPattern opts \<and> (\<exists>p\<in>set projects. id' p = ''.'') \<and>
    \<not> (v_forcePublicHoistPattern opts \<and> m_publicHoistPattern modules \<noteq> v_publicHoistPattern opts) \<and>
    \<not> v_forceNewModules opts \<and>
    v_hoistPattern opts = Some [] \<and> v_currentHoistPattern opts = None"
  then obtain rp where rp: "find (\<lambda>p. id' p = ''.'') projects = Some rp"
    by (cases "find (\<lambda>p. id' p = ''.'') projects") (auto simp: find_None_iff)
  from a have "hoistPatternCheck env (Some rp) opts w = (Inl (PnpmError ''HOIST_PATTERN_DIFF''), w)"
    by (simp add: hoistPatternCheck_def or_undefined_id)
  with rp a show "validateModules env modules projects opts w = (Inl (PnpmError ''HOIST_PATTERN_DIFF''), w)"
    by (auto simp: validateModules_def or_undefined_id)
next
  assume "v_forcePublicHoistPattern opts \<and> \<not> v_forceNewModules opts \<and>
    v_publicHoistPattern opts = Some [] \<and> m_publicHoistPattern modules = None"
  then show "validateModules env modules projects opts w = (Inl (PnpmError ''PUBLIC_HOIST_PATTERN_DIFF''), w)"
    by (auto simp: validateModules_def or_undefined_id split: option.splits)
qed

text \<open>Both failures on the sample descriptor, which records no public pattern.\<close>

theorem requested_pattern_compared_as_given_witness:
  "or_undefined (Some []) = Some [] \<and>
   validateModules sample_sys sample_modules [sample_root]
      (sample_opts\<lparr>v_currentHoistPattern := None, v_hoistPattern := Some [], v_forceHoistPattern := True\<rparr>)
      \<lparr>fs = sample_fs, trace = []\<rparr> =
     (Inl (PnpmError ''HOIST_PATTERN_DIFF''), \<lparr>fs = sample_fs, trace = []\<rparr>) \<and>
   validateModules sample_sys sample_modules [sample_root]
      (sample_opts\<lparr>v_publicHoistPattern := Some [], v_forcePublicHoistPattern := True\<rparr>)
      \<lparr>fs = sample_fs, trace = []\<rparr> =
     (Inl (PnpmError ''PUBLIC_HOIST_PATTERN_DIFF''), \<lparr>fs = sample_fs, trace = []\<rparr>)"
  using requested_pattern_compared_as_given
          [where requested = "Some []"
             and opts = "sample_opts\<lparr>v_currentHoistPattern := None, v_hoistPattern := Some [], v_forceHoistPattern := True\<rparr>"
             and projects = "[sample_root]" and env = sample_sys and modules = sample_modules
             and w = "\<lparr>fs = sample_fs, trace = []\<rparr>"]
        requested_pattern_compared_as_given
          [where requested = "Some []"
             and opts = "sample_opts\<lparr>v_publicHoistPattern := Some [], v_forcePublicHoistPattern := True\<rparr>"
             and projects = "[sample_root]" and env = sample_sys and modules = sample_modules
             and w = "\<lparr>fs = sample_fs, trace = []\<rparr>"]
  by (simp add: sample_opts_def sample_root_def sample_modules_def)

text \<open>
  Claim C10 as it was stated fails: the empty list is not made absent, and an empty
  requested pattern against an absent recorded pattern is a mismatch: here
  \<^verbatim>\<open>forceHoistPattern\<close> is set, the root project is in the list, and nothing else differs.
\<close>

theorem empty_pattern_normalized_counterexample:
  "or_undefined (Some []) \<noteq> None \<and>
   validateModules sample_sys sample_modules [sample_root]
      (sample_opts\<lparr>v_currentHoistPattern := None, v_hoistPattern := Some [], v_forceHoistPattern := True\<rparr>)
      \<lparr>fs = sample_fs, trace = []\<rparr> =
     (Inl (PnpmError ''HOIST_PATTERN_DIFF''), \<lparr>fs = sample_fs, trace = []\<rparr>)"
  by (simp add: run_defs sample_defs)

section \<open>The validator: the included dependencies\<close>

lemma includedDepsLoop_conflict:
  "includedDepsLoop depsFields inc minc =
     (if \<exists>f\<in>set depsFields. inc f \<noteq> minc f then Some (PnpmError ''INCLUDED_DEPS_CONFLICT'') else None)"
  by (induction depsFields) auto

text \<open>
  Claim C6, as amended. For a project whose compatibility check passes, the included
  dependency fields are compared if and only if the project's root directory differs from
  the lockfile directory, the options carry \<^verbatim>\<open>include\<close> and the descriptor carries
  \<^verbatim>\<open>included\<close>; the comparison fails with \<^verbatim>\<open>INCLUDED_DEPS_CONFLICT\<close> when a field of
  \<^verbatim>\<open>DEPENDENCIES_FIELDS\<close> differs. At the lockfile root, or when either of the two is
  absent, the check is skipped.
\<close>

theorem included_deps_compared_below_lockfile_root:
  assumes compatible: "checkCompatibility env modules (modulesDir p) (v_storeDir opts) (v_virtualStoreDir opts) = None"
  shows "(v_include opts = Some inc \<and> m_included modules = Some minc \<longrightarrow>
            checkProject env modules opts p =
              (if rootDir p \<noteq> v_lockfileDir opts \<and> (\<exists>f\<in>set (DEPENDENCIES_FIELDS env). inc f \<noteq> minc f)
               then Some (PnpmError ''INCLUDED_DEPS_CONFLICT'') else None)) \<and>
         (v_include opts = None \<or> m_included modules = None \<longrightarrow>
            checkProject env modules opts p = None)"
  using compatible
  by (auto simp: checkProject_def includedDepsLoop_conflict split: option.splits)

text \<open>
  The descriptor was installed without the dev dependencies and all three fields are
  requested: a conflict for the project below the lockfile directory, none for the root.
\<close>

theorem included_deps_compared_below_lockfile_root_witness:
  "checkProject sample_sys (sample_modules\<lparr>m_included := Some (\<lambda>f. f \<noteq> ''devDependencies'')\<rparr>)
       sample_opts sample_sub = Some (PnpmError ''INCLUDED_DEPS_CONFLICT'') \<and>
   checkProject sample_sys (sample_modules\<lparr>m_included := Some (\<lambda>f. f \<noteq> ''devDependencies'')\<rparr>)
       sample_opts sample_root = None"
  using included_deps_compared_below_lockfile_root
          [of sample_sys "sample_modules\<lparr>m_included := Some (\<lambda>f. f \<noteq> ''devDependencies'')\<rparr>"
              sample_sub sample_opts "\<lambda>f. True" "\<lambda>f. f \<noteq> ''devDependencies''"]
        included_deps_compared_below_lockfile_root
          [of sample_sys "sample_modules\<lparr>m_included := Some (\<lambda>f. f \<noteq> ''devDependencies'')\<rparr>"
              sample_root sample_opts "\<lambda>f. True" "\<lambda>f. f \<noteq> ''devDependencies''"]
  by (simp add: sample_defs)

text \<open>
  Claim C6 as it was stated fails. The project is below the lockfile directory in all three
  runs. With no \<^verbatim>\<open>include\<close> requested, the fields that the descriptor records are not
  compared, and the whole validation passes; with no \<^verbatim>\<open>included\<close> in the descriptor,
  the requested fields are not compared; and when the compatibility check throws, the
  fields, though they differ, are not compared and the error is that of the check.
\<close>

theorem included_deps_not_compared_counterexample:
  "rootDir sample_sub \<noteq> v_lockfileDir sample_opts \<and>
   checkProject sample_sys (sample_modules\<lparr>m_included := Some (\<lambda>f. f \<noteq> ''devDependencies'')\<rparr>)
       (sample_opts\<lparr>v_include := None\<rparr>) sample_sub = None \<and>
   validateModules sample_sys (sample_modules\<lparr>m_included := Some (\<lambda>f. f \<noteq> ''devDependencies'')\<rparr>)
       [sample_root, sample_sub] (sample_opts\<lparr>v_include := None\<rparr>) \<lparr>fs = sample_fs, trace = []\<rparr> =
     (Inr False, \<lparr>fs = sample_fs, trace = []\<rparr>) \<and>
   checkProject sample_sys (sample_modules\<lparr>m_included := None\<rparr>) sample_opts sample_sub = None \<and>
   checkProject
       (sample_sys\<lparr>checkCompatibility :=
          \<lambda>modules modulesDirName storeDir virtualStoreDir. Some (PnpmError ''UNEXPECTED_STORE'')\<rparr>)
       (sample_modules\<lparr>m_included := Some (\<lambda>f. f \<noteq> ''devDependencies'')\<rparr>)
       sample_opts sample_sub = Some (PnpmError ''UNEXPECTED_STORE'')"
  by (simp add: run_defs sample_defs)

section \<open>The validator: the registries\<close>

text \<open>
  When no removal fails and a listing fails with \<^verbatim>\<open>ENOENT\<close> only, a purge succeeds, and
  with \<^verbatim>\<open>forceNewModules\<close> the checks before the registries end with a value of
  \<^verbatim>\<open>purged\<close>.
\<close>

lemma purge_succeeds:
  assumes "\<forall>p f. fst (rimraf env p f) = None"
      and "\<forall>d f e. fs_readdir env d f = Inl e \<longrightarrow> code e = Some ''ENOENT''"
  shows "fst (purgeModulesDirsOfImporter env vsd imp w) = None"
proof (cases "fs_readdir env (modulesDir imp) (fs w)")
  case (Inl e)
  with assms(2) have "code e = Some ''ENOENT''" by blast
  with Inl show ?thesis
    by (simp add: purgeModulesDirsOfImporter_def removeContentsOfDir_def do_readdir_def emit_def)
next
  case (Inr items)
  let ?w1 = "emit (Readdir (modulesDir imp)) (emit (LoggerInfo (''Recreating '' @ modulesDir imp) (rootDir imp)) w)"
  from removeItems_succeeds[OF assms(1), of "modulesDir imp" vsd items ?w1]
  obtain w2 where "removeItems env (modulesDir imp) vsd items ?w1 = (None, w2)"
    by (metis prod.collapse)
  with Inr show ?thesis
    by (simp add: purgeModulesDirsOfImporter_def removeContentsOfDir_def do_readdir_def emit_def)
qed

lemma purgeAll_succeeds:
  assumes "\<forall>p f. fst (rimraf env p f) = None"
      and "\<forall>d f e. fs_readdir env d f = Inl e \<longrightarrow> code e = Some ''ENOENT''"
  shows "fst (purgeAll env vsd ps w) = None"
proof (induction ps arbitrary: w)
  case Nil
  then show ?case by simp
next
  case (Cons p ps)
  from purge_succeeds[OF assms, of vsd p w] obtain w1 where
    "purgeModulesDirsOfImporter env vsd p w = (None, w1)" by (metis prod.collapse)
  with Cons show ?case by simp
qed

lemma validateProjects_returns:
  assumes "\<forall>p f. fst (rimraf env p f) = None"
      and "\<forall>d f e. fs_readdir env d f = Inl e \<longrightarrow> code e = Some ''ENOENT''"
      and "v_forceNewModules opts"
  shows "\<exists>b. fst (validateProjects env modules opts purged ps w) = Inr b"
proof (induction ps arbitrary: w purged)
  case Nil
  then show ?case by simp
next
  case (Cons p ps)
  from purge_succeeds[OF assms(1,2), of "v_virtualStoreDir opts" p w] obtain w1 where
    "purgeModulesDirsOfImporter env (v_virtualStoreDir opts) p w = (None, w1)" by (metis prod.collapse)
  with Cons assms(3) show ?case by (cases "checkProject env modules opts p") auto
qed

lemma hoistPatternCheck_returns:
  assumes "\<forall>p f. fst (rimraf env p f) = None"
      and "\<forall>d f e. fs_readdir env d f = Inl e \<longrightarrow> code e = Some ''ENOENT''"
      and "v_forceNewModules opts"
  shows "\<exists>b. fst (hoistPatternCheck env rootProject opts w) = Inr b"
proof (cases rootProject)
  case None
  then show ?thesis by (auto simp: hoistPatternCheck_def)
next
  case (Some rp)
  from purge_succeeds[OF assms(1,2), of "v_virtualStoreDir opts" rp w] obtain w1 where
    "purgeModulesDirsOfImporter env (v_virtualStoreDir opts) rp w = (None, w1)" by (metis prod.collapse)
  with Some assms(3) show ?thesis by (auto simp: hoistPatternCheck_def)
qed

lemma forced_registries_purge_returns:
  assumes recorded: "m_registries modules = Some r"
      and differ: "r \<noteq> v_registries opts"
      and public_ok: "\<not> (v_forcePublicHoistPattern opts \<and>
                         m_publicHoistPattern modules \<noteq> v_publicHoistPattern opts)"
      and force: "v_forceNewModules opts"
      and rm: "\<forall>p f. fst (rimraf env p f) = None"
      and rd: "\<forall>d f e. fs_readdir env d f = Inl e \<longrightarrow> code e = Some ''ENOENT''"
  shows "fst (validateModules env modules projects opts w) = Inr True"
proof -
  from hoistPatternCheck_returns[OF rm rd force, of "find (\<lambda>p. id' p = ''.'') projects" w]
  obtain purged1 w1 where h: "hoistPatternCheck env (find (\<lambda>p. id' p = ''.'') projects) opts w = (Inr purged1, w1)"
    by (metis prod.collapse)
  from validateProjects_returns[OF rm rd force, of modules purged1 projects w1]
  obtain purged2 w2 where v: "validateProjects env modules opts purged1 projects w1 = (Inr purged2, w2)"
    by (metis prod.collapse)
  from purgeAll_succeeds[OF rm rd, of "v_virtualStoreDir opts" projects w2]
  obtain w3 where "purgeAll env (v_virtualStoreDir opts) projects w2 = (None, w3)"
    by (metis prod.collapse)
  with recorded differ force
  have "registriesCheck env modules projects opts purged2 w2 = (Inr True, w3)"
    by (auto simp: registriesCheck_def)
  with h v public_ok show ?thesis
    by (auto simp: validateModules_def or_undefined_id)
qed

text \<open>
  Claim C4, as amended. Let the descriptor record a registry map that differs from the
  requested one, and let the check of the public hoist pattern not end the call. With
  \<^verbatim>\<open>forceNewModules\<close>, the call returns \<^verbatim>\<open>purged = true\<close> when no purge fails (no removal
  fails, and a listing fails with \<^verbatim>\<open>ENOENT\<close> only); and a call that returns has purged
  every project of the list, these purges being its last effects. Without
  \<^verbatim>\<open>forceNewModules\<close>, when the hoist pattern check and the check of every project pass,
  the call fails with \<^verbatim>\<open>REGISTRIES_MISMATCH\<close> and leaves the world as it was.
\<close>

theorem registries_mismatch_after_earlier_checks:
  assumes recorded: "m_registries modules = Some r"
      and differ: "r \<noteq> v_registries opts"
      and public_ok: "\<not> (v_forcePublicHoistPattern opts \<and>
                         m_publicHoistPattern modules \<noteq> v_publicHoistPattern opts)"
  shows "(v_forceNewModules opts \<and> (\<forall>p f. fst (rimraf env p f) = None) \<and>
          (\<forall>d f e. fs_readdir env d f = Inl e \<longrightarrow> code e = Some ''ENOENT'') \<longrightarrow>
            fst (validateModules env modules projects opts w) = Inr True) \<and>
         (v_forceNewModules opts \<and> validateModules env modules projects opts w = (Inr purged, w') \<longrightarrow>
            purged \<and>
            (\<exists>w2 evs. trace w2 = trace w @ evs \<and>
                purgeAll env (v_virtualStoreDir opts) projects w2 = (None, w') \<and>
                (\<forall>p\<in>set projects. Readdir (modulesDir p) \<in> set (drop (length (trace w2)) (trace w'))))) \<and>
         (\<not> v_forceNewModules opts \<and>
          \<not> (v_forceHoistPattern opts \<and> (\<exists>p\<in>set projects. id' p = ''.'') \<and>
             v_currentHoistPattern opts \<noteq> v_hoistPattern opts) \<and>
          (\<forall>p\<in>set projects. checkProject env modules opts p = None) \<longrightarrow>
            validateModules env modules projects opts w = (Inl (PnpmError ''REGISTRIES_MISMATCH''), w))"
    (is "?returns \<and> ?rest")
proof (rule conjI)
  show ?returns
    using forced_registries_purge_returns[OF recorded differ public_ok] by blast
next
  show ?rest
  proof (rule conjI; rule impI)
  assume a: "v_forceNewModules opts \<and> validateModules env modules projects opts w = (Inr purged, w')"
  obtain r1 w1 where h: "hoistPatternCheck env (find (\<lambda>p. id' p = ''.'') projects) opts w = (r1, w1)"
    by fastforce
  from hoistPatternCheck_trace[OF h] obtain evs1 where e1: "trace w1 = trace w @ evs1" by blast
  from a h public_ok obtain purged1 where r1: "r1 = Inr purged1"
    by (cases r1) (auto simp: validateModules_def or_undefined_id)
  obtain r2 w2 where v: "validateProjects env modules opts purged1 projects w1 = (r2, w2)"
    by fastforce
  from validateProjects_trace[OF v] obtain evs2 where e2: "trace w2 = trace w1 @ evs2" by blast
  from a h r1 v public_ok obtain purged2 where r2: "r2 = Inr purged2"
    by (cases r2) (auto simp: validateModules_def or_undefined_id)
  from a h r1 v r2 public_ok
  have reg: "registriesCheck env modules projects opts purged2 w2 = (Inr purged, w')"
    by (auto simp: validateModules_def or_undefined_id)
  obtain r3 w3 where pa: "purgeAll env (v_virtualStoreDir opts) projects w2 = (r3, w3)" by fastforce
  from reg pa a recorded differ have fin: "r3 = None" "w3 = w'" "purged"
    by (auto simp: registriesCheck_def split: option.splits)
  from purgeAll_trace[OF pa] fin obtain evs3 where
    e3: "trace w' = trace w2 @ evs3" "\<forall>p\<in>set projects. Readdir (modulesDir p) \<in> set evs3"
    by auto
  from e3 have "\<forall>p\<in>set projects. Readdir (modulesDir p) \<in> set (drop (length (trace w2)) (trace w'))"
    by simp
  moreover from e1 e2 have "trace w2 = trace w @ (evs1 @ evs2)" by simp
  moreover from pa fin have "purgeAll env (v_virtualStoreDir opts) projects w2 = (None, w')" by simp
  ultimately show "purged \<and>
            (\<exists>w2 evs. trace w2 = trace w @ evs \<and>
                purgeAll env (v_virtualStoreDir opts) projects w2 = (None, w') \<and>
                (\<forall>p\<in>set projects. Readdir (modulesDir p) \<in> set (drop (length (trace w2)) (trace w'))))"
    using fin(3) by blast
next
  assume a: "\<not> v_forceNewModules opts \<and>
          \<not> (v_forceHoistPattern opts \<and> (\<exists>p\<in>set projects. id' p = ''.'') \<and>
             v_currentHoistPattern opts \<noteq> v_hoistPattern opts) \<and>
          (\<forall>p\<in>set projects. checkProject env modules opts p = None)"
  have h: "hoistPatternCheck env (find (\<lambda>p. id' p = ''.'') projects) opts w = (Inr False, w)"
  proof (cases "find (\<lambda>p. id' p = ''.'') projects")
    case None
    then show ?thesis by (simp add: hoistPatternCheck_def)
  next
    case (Some rp)
    from find_Some_in_set[OF Some] have "\<exists>p\<in>set projects. id' p = ''.''" by blast
    with a have "\<not> (v_forceHoistPattern opts \<and> v_currentHoistPattern opts \<noteq> v_hoistPattern opts)"
      by blast
    with Some show ?thesis by (auto simp: hoistPatternCheck_def or_undefined_id)
  qed
  from a have v: "validateProjects env modules opts False projects w = (Inr False, w)"
    by (simp add: validateProjects_all_pass)
  from a recorded differ
  have "registriesCheck env modules projects opts False w = (Inl (PnpmError ''REGISTRIES_MISMATCH''), w)"
    by (auto simp: registriesCheck_def)
  with h v public_ok
  show "validateModules env modules projects opts w = (Inl (PnpmError ''REGISTRIES_MISMATCH''), w)"
    by (auto simp: validateModules_def or_undefined_id)
  qed
qed

lemma sample_registries_purge_run:
  "fs (snd (validateModules sample_sys sample_modules [sample_root, sample_sub]
      (sample_opts\<lparr>v_registries := [''default'' \<mapsto> ''https://example.org/''], v_forceNewModules := True\<rparr>)
      \<lparr>fs = sample_fs, trace = []\<rparr>)) =
     [(''/p/node_modules'', [''.keep'']), (''/p/sub/node_modules'', [])]"
  by (simp add: run_defs sample_defs singleton_map_eq)

text \<open>
  Both halves on the sample workspace, the requested registry being another one. With
  \<^verbatim>\<open>forceNewModules\<close> the modules of both projects are purged, \<^verbatim>\<open>.keep\<close> staying.
\<close>

theorem registries_mismatch_after_earlier_checks_witness:
  "fst (validateModules sample_sys sample_modules [sample_root, sample_sub]
      (sample_opts\<lparr>v_registries := [''default'' \<mapsto> ''https://example.org/''], v_forceNewModules := True\<rparr>)
      \<lparr>fs = sample_fs, trace = []\<rparr>) = Inr True \<and>
   fs (snd (validateModules sample_sys sample_modules [sample_root, sample_sub]
      (sample_opts\<lparr>v_registries := [''default'' \<mapsto> ''https://example.org/''], v_forceNewModules := True\<rparr>)
      \<lparr>fs = sample_fs, trace = []\<rparr>)) =
     [(''/p/node_modules'', [''.keep'']), (''/p/sub/node_modules'', [])] \<and>
   validateModules sample_sys sample_modules [sample_root, sample_sub]
      (sample_opts\<lparr>v_registries := [''default'' \<mapsto> ''https://example.org/'']\<rparr>)
      \<lparr>fs = sample_fs, trace = []\<rparr> =
     (Inl (PnpmError ''REGISTRIES_MISMATCH''), \<lparr>fs = sample_fs, trace = []\<rparr>)"
proof -
  have recorded: "m_registries sample_modules = Some [''default'' \<mapsto> ''https://registry.npmjs.org/'']"
    by (simp add: sample_modules_def)
  have differ1: "[''default'' \<mapsto> ''https://registry.npmjs.org/''] \<noteq>
      v_registries (sample_opts\<lparr>v_registries := [''default'' \<mapsto> ''https://example.org/'']\<rparr>)"
    by (simp add: singleton_map_eq)
  have public1: "\<not> (v_forcePublicHoistPattern (sample_opts\<lparr>v_registries := [''default'' \<mapsto> ''https://example.org/'']\<rparr>) \<and>
      m_publicHoistPattern sample_modules \<noteq>
      v_publicHoistPattern (sample_opts\<lparr>v_registries := [''default'' \<mapsto> ''https://example.org/'']\<rparr>))"
    by (simp add: sample_opts_def)
  have pass: "\<not> v_forceNewModules (sample_opts\<lparr>v_registries := [''default'' \<mapsto> ''https://example.org/'']\<rparr>) \<and>
          \<not> (v_forceHoistPattern (sample_opts\<lparr>v_registries := [''default'' \<mapsto> ''https://example.org/'']\<rparr>) \<and>
             (\<exists>p\<in>set [sample_root, sample_sub]. id' p = ''.'') \<and>
             v_currentHoistPattern (sample_opts\<lparr>v_registries := [''default'' \<mapsto> ''https://example.org/'']\<rparr>) \<noteq>
             v_hoistPattern (sample_opts\<lparr>v_registries := [''default'' \<mapsto> ''https://example.org/'']\<rparr>)) \<and>
          (\<forall>p\<in>set [sample_root, sample_sub].
              checkProject sample_sys sample_modules
                (sample_opts\<lparr>v_registries := [''default'' \<mapsto> ''https://example.org/'']\<rparr>) p = None)"
    by (simp add: checkProject_def sample_defs)
  from registries_mismatch_after_earlier_checks[OF recorded differ1 public1] pass
  have unforced: "validateModules sample_sys sample_modules [sample_root, sample_sub]
      (sample_opts\<lparr>v_registries := [''default'' \<mapsto> ''https://example.org/'']\<rparr>)
      \<lparr>fs = sample_fs, trace = []\<rparr> =
     (Inl (PnpmError ''REGISTRIES_MISMATCH''), \<lparr>fs = sample_fs, trace = []\<rparr>)"
    by blast
  have differ2: "[''default'' \<mapsto> ''https://registry.npmjs.org/''] \<noteq>
      v_registries (sample_opts\<lparr>v_registries := [''default'' \<mapsto> ''https://example.org/''],
                                v_forceNewModules := True\<rparr>)"
    by (simp add: singleton_map_eq)
  have public2: "\<not> (v_forcePublicHoistPattern (sample_opts\<lparr>v_registries := [''default'' \<mapsto> ''https://example.org/''],
                                v_forceNewModules := True\<rparr>) \<and>
      m_publicHoistPattern sample_modules \<noteq>
      v_publicHoistPattern (sample_opts\<lparr>v_registries := [''default'' \<mapsto> ''https://example.org/''],
                                v_forceNewModules := True\<rparr>))"
    by (simp add: sample_opts_def)
  have sound: "v_forceNewModules (sample_opts\<lparr>v_registries := [''default'' \<mapsto> ''https://example.org/''],
                                v_forceNewModules := True\<rparr>) \<and>
      (\<forall>p f. fst (rimraf sample_sys p f) = None) \<and>
      (\<forall>d f e. fs_readdir sample_sys d f = Inl e \<longrightarrow> code e = Some ''ENOENT'')"
    by (auto simp: sample_sys_def sample_rimraf_def sample_readdir_def split: option.splits)
  from registries_mismatch_after_earlier_checks[OF recorded differ2 public2, THEN conjunct1] sound
  have forced: "fst (validateModules sample_sys sample_modules [sample_root, sample_sub]
      (sample_opts\<lparr>v_registries := [''default'' \<mapsto> ''https://example.org/''], v_forceNewModules := True\<rparr>)
      \<lparr>fs = sample_fs, trace = []\<rparr>) = Inr True"
    by (rule mp)
  from forced sample_registries_purge_run unforced show ?thesis by (intro conjI)
qed

text \<open>
  Claim C4 as it was stated fails where an earlier check ends the call, or a purge fails.
  The registries differ in all five runs: without \<^verbatim>\<open>forceNewModules\<close> the call fails with
  the error of the public hoist pattern, of the hoist pattern, or of a project; with it, a
  forced public hoist pattern that differs purges the root project alone and returns, the
  project below keeping its modules; and with it and a removal that is not permitted, the
  call fails with the error of the removal.
\<close>

theorem registries_mismatch_preempted_counterexample:
  "m_registries sample_modules \<noteq>
     Some (v_registries (sample_opts\<lparr>v_registries := [''default'' \<mapsto> ''https://example.org/''],
             v_publicHoistPattern := Some [''*''], v_forcePublicHoistPattern := True\<rparr>)) \<and>
   validateModules sample_sys sample_modules [sample_root, sample_sub]
      (sample_opts\<lparr>v_registries := [''default'' \<mapsto> ''https://example.org/''],
                    v_publicHoistPattern := Some [''*''], v_forcePublicHoistPattern := True\<rparr>)
      \<lparr>fs = sample_fs, trace = []\<rparr> =
     (Inl (PnpmError ''PUBLIC_HOIST_PATTERN_DIFF''), \<lparr>fs = sample_fs, trace = []\<rparr>) \<and>
   validateModules sample_sys sample_modules [sample_root, sample_sub]
      (sample_opts\<lparr>v_registries := [''default'' \<mapsto> ''https://example.org/''],
                    v_hoistPattern := None, v_forceHoistPattern := True\<rparr>)
      \<lparr>fs = sample_fs, trace = []\<rparr> =
     (Inl (PnpmError ''HOIST_PATTERN_DIFF''), \<lparr>fs = sample_fs, trace = []\<rparr>) \<and>
   validateModules sample_sys (sample_modules\<lparr>m_included := Some (\<lambda>f. f \<noteq> ''devDependencies'')\<rparr>)
      [sample_root, sample_sub]
      (sample_opts\<lparr>v_registries := [''default'' \<mapsto> ''https://example.org/'']\<rparr>)
      \<lparr>fs = sample_fs, trace = []\<rparr> =
     (Inl (PnpmError ''INCLUDED_DEPS_CONFLICT''), \<lparr>fs = sample_fs, trace = []\<rparr>) \<and>
   validateModules sample_sys sample_modules [sample_root, sample_sub]
      (sample_opts\<lparr>v_registries := [''default'' \<mapsto> ''https://example.org/''],
                    v_publicHoistPattern := Some [''*''], v_forcePublicHoistPattern := True,
                    v_forceNewModules := True\<rparr>)
      \<lparr>fs = sample_fs, trace = []\<rparr> =
     (Inr True,
      \<lparr>fs = [(''/p/node_modules'', [''.keep'']), (''/p/sub/node_modules'', [''lodash''])],
       trace = [LoggerInfo ''Recreating /p/node_modules'' ''/p'', Readdir ''/p/node_modules'',
                Rimraf ''/p/node_modules/.bin'', Rimraf ''/p/node_modules/.modules.yaml'',
                Rimraf ''/p/node_modules/.pnpm'', Rimraf ''/p/node_modules/lodash'']\<rparr>) \<and>
   validateModules (sample_sys\<lparr>rimraf := \<lambda>p f. (Some (SystemError ''EPERM''), f)\<rparr>)
      sample_modules [sample_root]
      (sample_opts\<lparr>v_registries := [''default'' \<mapsto> ''https://example.org/''],
                    v_forceNewModules := True\<rparr>)
      \<lparr>fs = sample_fs, trace = []\<rparr> =
     (Inl (SystemError ''EPERM''),
      \<lparr>fs = sample_fs,
       trace = [LoggerInfo ''Recreating /p/node_modules'' ''/p'', Readdir ''/p/node_modules'',
                Rimraf ''/p/node_modules/.bin'']\<rparr>)"
  by (simp add: run_defs sample_defs singleton_map_eq)

section \<open>The validator: the purge of the lockfile directory's modules\<close>

text \<open>
  Claim C5 says that a call in which a purge fired, for a list without a root project,
  also purges the modules directory of the lockfile directory. The code does so when the
  purge came from the check of a project, and does not when it came from the registries:
  that branch returns before the last step. Both runs are for the one project below the
  lockfile directory \<^verbatim>\<open>/p\<close>, with \<^verbatim>\<open>forceNewModules\<close>. In the first the included fields
  conflict, and \<^verbatim>\<open>/p/node_modules\<close> is purged after the project's directory; in the
  second the registries differ, the project's directory is purged, and
  \<^verbatim>\<open>/p/node_modules\<close>, with its descriptor, is left as it was.
\<close>

theorem registries_purge_skips_lockfile_root:
  "find (\<lambda>p. id' p = ''.'') [sample_sub] = None \<and>
   path_join sample_sys (v_lockfileDir sample_opts) (v_modulesDir sample_opts) = ''/p/node_modules'' \<and>
   validateModules sample_sys (sample_modules\<lparr>m_included := Some (\<lambda>f. f \<noteq> ''devDependencies'')\<rparr>)
      [sample_sub] (sample_opts\<lparr>v_forceNewModules := True\<rparr>) \<lparr>fs = sample_fs, trace = []\<rparr> =
     (Inr True,
      \<lparr>fs = [(''/p/node_modules'', [''.keep'']), (''/p/sub/node_modules'', [])],
       trace = [LoggerInfo ''Recreating /p/sub/node_modules'' ''/p/sub'', Readdir ''/p/sub/node_modules'',
                Rimraf ''/p/sub/node_modules/lodash'',
                LoggerInfo ''Recreating /p/node_modules'' ''/p'', Readdir ''/p/node_modules'',
                Rimraf ''/p/node_modules/.bin'', Rimraf ''/p/node_modules/.modules.yaml'',
                Rimraf ''/p/node_modules/.pnpm'', Rimraf ''/p/node_modules/lodash'']\<rparr>) \<and>
   validateModules sample_sys sample_modules [sample_sub]
      (sample_opts\<lparr>v_registries := [''default'' \<mapsto> ''https://example.org/''], v_forceNewModules := True\<rparr>)
      \<lparr>fs = sample_fs, trace = []\<rparr> =
     (Inr True,
      \<lparr>fs = [(''/p/node_modules'', [''.bin'', ''.keep'', ''.modules.yaml'', ''.pnpm'', ''lodash'']),
             (''/p/node_modules/.pnpm'', [''lodash@4'']),
             (''/p/sub/node_modules'', [])],
       trace = [LoggerInfo ''Recreating /p/sub/node_modules'' ''/p/sub'', Readdir ''/p/sub/node_modules'',
                Rimraf ''/p/sub/node_modules/lodash'']\<rparr>)"
  by (simp add: run_defs sample_defs singleton_map_eq)

section \<open>The effects of the builders\<close>














section \<open>The builders: one validation, one retry\<close>





section \<open>The builders: the bin paths\<close>

lemma nonEmptyLength_iff: "nonEmptyLength p = (\<exists>xs. p = Some xs \<and> xs \<noteq> [])"
  by (cases p) simp_all

lemma assembleContext_binPaths:
  "assembleContext env opts virtualStoreDir importersContext w = (Inr ctx, w') \<Longrightarrow>
   c_virtualStoreDir ctx = virtualStoreDir \<and>
   c_extraBinPaths ctx =
     (if nonEmptyLength (o_hoistPattern opts)
      then path_join env (path_join env virtualStoreDir ''node_modules'') ''.bin'' # o_extraBinPaths opts
      else o_extraBinPaths opts)"
  by (auto simp: assembleContext_def Let_def split: option.splits sum.splits prod.splits if_splits)

lemma assembleSingleContext_binPaths:
  "assembleSingleContext env manifest0 opts virtualStoreDir importer rc w = (Inr ctx, w') \<Longrightarrow>
   sc_virtualStoreDir ctx = virtualStoreDir \<and>
   sc_extraBinPaths ctx =
     (if nonEmptyLength (s_hoistPattern opts)
      then path_join env (path_join env virtualStoreDir ''node_modules'') ''.bin'' # s_extraBinPaths opts
      else s_extraBinPaths opts)"
  by (auto simp: assembleSingleContext_def Let_def split: option.splits sum.splits prod.splits if_splits)

lemma getContext_binPaths:
  assumes "getContext env opts w = (Inr ctx, w')"
  shows "c_extraBinPaths ctx =
     (if nonEmptyLength (o_hoistPattern opts)
      then path_join env (path_join env (c_virtualStoreDir ctx) ''node_modules'') ''.bin'' # o_extraBinPaths opts
      else o_extraBinPaths opts)"
proof -
  from assms obtain vsd ic w2 where "assembleContext env opts vsd ic w2 = (Inr ctx, w')"
    by (auto simp: getContext_def Let_def split: sum.splits prod.splits)
  from assembleContext_binPaths[OF this] show ?thesis by simp
qed

lemma single_retry_result:
  "getContextForSingleImporter env manifest0 opts True w = (Inr ctx, w') \<Longrightarrow>
   \<exists>vsd importer rc w1. assembleSingleContext env manifest0 opts vsd importer rc w1 = (Inr ctx, w')"
  by (subst (asm) getContextForSingleImporter.simps)
     (auto simp: Let_def simp del: getContextForSingleImporter.simps
           split: sum.splits prod.splits list.splits option.splits if_splits)

lemma single_first_result:
  "getContextForSingleImporter env manifest0 opts False w = (Inr ctx, w') \<Longrightarrow>
   (\<exists>vsd importer rc w1. assembleSingleContext env manifest0 opts vsd importer rc w1 = (Inr ctx, w')) \<or>
   (\<exists>w2. getContextForSingleImporter env manifest0 opts True w2 = (Inr ctx, w'))"
  by (subst (asm) getContextForSingleImporter.simps)
     (auto simp: Let_def simp del: getContextForSingleImporter.simps
           split: sum.splits prod.splits list.splits option.splits if_splits)

lemma single_binPaths:
  assumes "getContextForSingleImporter env manifest0 opts alreadyPurged w = (Inr ctx, w')"
  shows "sc_extraBinPaths ctx =
     (if nonEmptyLength (s_hoistPattern opts)
      then path_join env (path_join env (sc_virtualStoreDir ctx) ''node_modules'') ''.bin'' # s_extraBinPaths opts
      else s_extraBinPaths opts)"
proof -
  have "\<exists>vsd importer rc w1. assembleSingleContext env manifest0 opts vsd importer rc w1 = (Inr ctx, w')"
  proof (cases alreadyPurged)
    case True
    with assms show ?thesis
      by (auto simp del: getContextForSingleImporter.simps dest: single_retry_result)
  next
    case False
    with assms single_first_result[of env manifest0 opts w ctx w'] show ?thesis
      by (auto simp del: getContextForSingleImporter.simps dest: single_retry_result)
  qed
  then obtain vsd importer rc w1 where
    "assembleSingleContext env manifest0 opts vsd importer rc w1 = (Inr ctx, w')" by blast
  from assembleSingleContext_binPaths[OF this] show ?thesis by simp
qed

text \<open>
  Claim C8, as amended. In a context that \<^verbatim>\<open>getContext\<close> or
  \<^verbatim>\<open>getContextForSingleImporter\<close> returns, the bin path of the hoisted modules,
  \<^verbatim>\<open>virtualStoreDir/node_modules/.bin\<close>, is put before the extra bin paths of the options
  if and only if the requested hoist pattern, \<^verbatim>\<open>opts.hoistPattern\<close>, has an element. The
  recorded pattern plays no part in the bin paths.
\<close>

theorem bin_path_follows_requested_pattern:
  "(getContext env opts w = (Inr ctx, w') \<longrightarrow>
      c_extraBinPaths ctx =
        (if \<exists>xs. o_hoistPattern opts = Some xs \<and> xs \<noteq> []
         then path_join env (path_join env (c_virtualStoreDir ctx) ''node_modules'') ''.bin'' #
                o_extraBinPaths opts
         else o_extraBinPaths opts)) \<and>
   (getContextForSingleImporter env1 manifest0 opts1 alreadyPurged w1 = (Inr ctx1, w1') \<longrightarrow>
      sc_extraBinPaths ctx1 =
        (if \<exists>xs. s_hoistPattern opts1 = Some xs \<and> xs \<noteq> []
         then path_join env1 (path_join env1 (sc_virtualStoreDir ctx1) ''node_modules'') ''.bin'' #
                s_extraBinPaths opts1
         else s_extraBinPaths opts1))"
  using getContext_binPaths[of env opts w ctx w']
        single_binPaths[of env1 manifest0 opts1 alreadyPurged w1 ctx1 w1']
  by (simp add: nonEmptyLength_iff)

text \<open>With \<^verbatim>\<open>['*']\<close> requested on the sample workspace, the bin path comes first.\<close>

theorem bin_path_follows_requested_pattern_witness:
  "map_sum id c_extraBinPaths
     (fst (getContext sample_context_sys (sample_context_opts\<lparr>o_hoistPattern := Some [''*'']\<rparr>)
             \<lparr>fs = sample_fs, trace = []\<rparr>)) =
   Inr [''/p/node_modules/.pnpm/node_modules/.bin'', ''/usr/local/bin'']"
proof -
  let ?run = "getContext sample_context_sys (sample_context_opts\<lparr>o_hoistPattern := Some [''*'']\<rparr>)
                \<lparr>fs = sample_fs, trace = []\<rparr>"
  have run: "?run = (Inr (projr (fst ?run)), snd ?run)"
    by (simp add: context_defs run_defs sample_defs singleton_map_eq Let_def)
  have vsd: "c_virtualStoreDir (projr (fst ?run)) = ''/p/node_modules/.pnpm''"
    by (simp add: context_defs run_defs sample_defs singleton_map_eq Let_def)
  from bin_path_follows_requested_pattern
         [of sample_context_sys "sample_context_opts\<lparr>o_hoistPattern := Some [''*'']\<rparr>"
             "\<lparr>fs = sample_fs, trace = []\<rparr>" "projr (fst ?run)" "snd ?run", THEN conjunct1] run vsd
  have "c_extraBinPaths (projr (fst ?run)) =
          [''/p/node_modules/.pnpm/node_modules/.bin'', ''/usr/local/bin'']"
    by (simp add: sample_context_opts_def sample_context_sys_def sample_join_def)
  moreover from run have "fst ?run = Inr (projr (fst ?run))" by (metis fst_conv)
  ultimately show ?thesis by (metis map_sum.simps(2))
qed

text \<open>
  Claim C8 as it was stated fails: nothing is requested and the descriptor records
  \<^verbatim>\<open>['*']\<close>, so the hoist pattern in effect, the one of the context, is \<^verbatim>\<open>['*']\<close>; yet
  the bin paths are those of the options, without the hoisted one.
\<close>

theorem bin_path_ignores_persisted_pattern_counterexample:
  "map_sum id (\<lambda>ctx. (c_hoistPattern ctx, c_extraBinPaths ctx))
     (fst (getContext sample_context_sys sample_context_opts \<lparr>fs = sample_fs, trace = []\<rparr>)) =
   Inr (Some [''*''], [''/usr/local/bin''])"
  by (simp add: context_defs run_defs sample_defs singleton_map_eq Let_def)

end
